theory Spec2Isabelle
  imports Main "HOL-Library.Sublist"
begin

section \<open>Strings and time\<close>

text \<open>
  A Python \<open>str\<close> is modelled as a \<open>string\<close>: a list of 8-bit characters, a character
  beyond ASCII being its UTF-8 bytes. \<open>kw in text\<close> is \<open>sublist kw text\<close>. The case
  conversions and \<open>strip\<close> act on the ASCII letters and the ASCII white space and leave
  every other byte as it is.
\<close>

definition lower_char :: "char \<Rightarrow> char" where
  "lower_char c =
     (let n = (of_char c :: nat) in if 65 \<le> n \<and> n \<le> 90 then char_of (n + 32) else c)"

definition upper_char :: "char \<Rightarrow> char" where
  "upper_char c =
     (let n = (of_char c :: nat) in if 97 \<le> n \<and> n \<le> 122 then char_of (n - 32) else c)"

definition lower :: "string \<Rightarrow> string" where
  "lower s = map lower_char s"

definition upper :: "string \<Rightarrow> string" where
  "upper s = map upper_char s"

definition is_space :: "char \<Rightarrow> bool" where
  "is_space c = (let n = (of_char c :: nat) in (9 \<le> n \<and> n \<le> 13) \<or> (28 \<le> n \<and> n \<le> 32))"

definition strip :: "string \<Rightarrow> string" where
  "strip s = rev (dropWhile is_space (rev (dropWhile is_space s)))"

text \<open>
  An aware \<open>datetime\<close> is the instant it denotes, in microseconds since the epoch:
  comparison and subtraction of aware datetimes are those of the instants. The hour
  read by \<open>_is_night_window\<close> is the hour of the wall clock at UTC+8, the zone of
  \<open>_bj_tz\<close> in which every \<open>now\<close> of the source is taken.
\<close>

type_synonym datetime = int

definition minutes :: "int \<Rightarrow> int" where
  "minutes m = m * 60000000"

definition hour :: "datetime \<Rightarrow> int" where
  "hour t = (t div 3600000000 + 8) mod 24"

definition is_night_window :: "datetime \<Rightarrow> bool" where
  "is_night_window now = (hour now \<ge> 21 \<or> hour now < 3)"

section \<open>Interval policy\<close>

definition day_base_minutes :: "string \<Rightarrow> int" where
  "day_base_minutes tier = (if tier = ''B'' then 60 else 30)"

definition next_interval_minutes :: "string \<Rightarrow> int \<Rightarrow> datetime \<Rightarrow> int" where
  "next_interval_minutes tier no_news_streak now =
     (if is_night_window now then 15
      else let base = day_base_minutes tier in
        if base = 60 then (if no_news_streak \<le> 0 then 60 else 90)
        else if no_news_streak \<le> 0 then 30
        else if no_news_streak = 1 then 60
        else 90)"

section \<open>Entity clock registry\<close>

text \<open>
  The value of \<open>account_states\<close> under a key: the dictionary with the keys \<open>tier\<close>,
  \<open>last_check_time\<close>, \<open>last_polled_at\<close>, \<open>no_news_streak\<close> and \<open>next_due_at\<close>.
  \<open>None\<close> is Python's \<open>None\<close>.
\<close>

record account_state =
  tier :: string
  last_check_time :: datetime
  last_polled_at :: "datetime option"
  no_news_streak :: int
  next_due_at :: "datetime option"

text \<open>One entry of the configured \<open>accounts\<close>; a missing key is its default.\<close>

record account =
  screen_name :: string
  acc_tier :: string
  vendor :: string
  is_founder :: bool

record twitter_source =
  accounts :: "account list"
  init_time :: datetime
  vendor_map :: "string \<rightharpoonup> (string \<times> bool)"
  account_states :: "string \<rightharpoonup> account_state"

definition fresh_state :: "string \<Rightarrow> datetime \<Rightarrow> account_state" where
  "fresh_state t init =
     \<lparr>tier = t, last_check_time = init, last_polled_at = None,
      no_news_streak = 0, next_due_at = Some init\<rparr>"

definition coerce_tier :: "string \<Rightarrow> string" where
  "coerce_tier raw =
     (let t = upper (if raw = [] then ''A'' else raw)
      in if t \<in> {''S'', ''A'', ''B''} then t else ''A'')"

fun register_accounts :: "datetime \<Rightarrow> account list \<Rightarrow> twitter_source \<Rightarrow> twitter_source" where
  "register_accounts init [] src = src"
| "register_accounts init (acc # accs) src =
     (let sn = strip (screen_name acc) in
      if sn = [] then register_accounts init accs src
      else let lw = lower sn in
        register_accounts init accs
          (src\<lparr>vendor_map := (vendor_map src)(lw \<mapsto> (vendor acc, is_founder acc)),
               account_states :=
                 (account_states src)(lw \<mapsto> fresh_state (coerce_tier (acc_tier acc)) init)\<rparr>))"

definition init_source :: "account list \<Rightarrow> datetime \<Rightarrow> twitter_source" where
  "init_source accs now =
     register_accounts now accs
       \<lparr>accounts = accs, init_time = now, vendor_map = Map.empty, account_states = Map.empty\<rparr>"

text \<open>\<open>_get_state\<close> returns the entry and, when the key is new, stores a default one.\<close>

definition get_state :: "twitter_source \<Rightarrow> string \<Rightarrow> account_state \<times> twitter_source" where
  "get_state src sn =
     (let lw = lower sn in
      case account_states src lw of
        Some st \<Rightarrow> (st, src)
      | None \<Rightarrow>
          (let st = fresh_state ''A'' (init_time src)
           in (st, src\<lparr>account_states := (account_states src)(lw \<mapsto> st)\<rparr>)))"

definition put_state :: "twitter_source \<Rightarrow> string \<Rightarrow> account_state \<Rightarrow> twitter_source" where
  "put_state src sn st = src\<lparr>account_states := (account_states src)(lower sn \<mapsto> st)\<rparr>"

section \<open>Due-set selector and schedule advancer\<close>

definition should_poll_state :: "account_state \<Rightarrow> datetime \<Rightarrow> bool" where
  "should_poll_state st now =
     (if is_night_window now then
        (case last_polled_at st of
           None \<Rightarrow> True
         | Some lp \<Rightarrow> now - lp \<ge> minutes 15)
      else
        (case next_due_at st of
           None \<Rightarrow> True
         | Some nd \<Rightarrow> now \<ge> nd))"

definition should_poll_account :: "twitter_source \<Rightarrow> string \<Rightarrow> datetime \<Rightarrow> bool \<times> twitter_source" where
  "should_poll_account src sn now =
     (let (st, src') = get_state src sn in (should_poll_state st now, src'))"

definition advance_state :: "account_state \<Rightarrow> bool \<Rightarrow> datetime \<Rightarrow> account_state" where
  "advance_state st has_news now =
     (let streak = (if has_news then 0 else min (no_news_streak st + 1) 6);
          interval_minutes = next_interval_minutes (tier st) streak now
      in st\<lparr>no_news_streak := streak,
            last_polled_at := Some now,
            next_due_at := Some (now + minutes interval_minutes)\<rparr>)"

definition advance_account_schedule :: "twitter_source \<Rightarrow> string \<Rightarrow> bool \<Rightarrow> datetime \<Rightarrow> twitter_source" where
  "advance_account_schedule src sn has_news now =
     (let (st, src') = get_state src sn in put_state src' sn (advance_state st has_news now))"

section \<open>Provider data and the library\<close>

text \<open>
  A tweet is the JSON object of the provider, with string values: an association list
  read with \<open>dict.get\<close>. The payload holds an optional \<open>pinned\<close> object and the
  \<open>timeline\<close> list of objects. \<open>_fetch_user_tweets\<close> catches every exception of the
  request and answers the empty payload then, as it does for a reply with no \<open>data\<close>.
\<close>

type_synonym tweet = "(string \<times> string) list"

definition dict_get :: "tweet \<Rightarrow> string \<Rightarrow> string \<Rightarrow> string" where
  "dict_get d k dflt = (case map_of d k of Some v \<Rightarrow> v | None \<Rightarrow> dflt)"

record raw_data =
  pinned :: "tweet option"
  timeline :: "tweet list"

datatype response = RequestFailed | NoData | Data raw_data

definition empty_data :: raw_data where
  "empty_data = \<lparr>pinned = None, timeline = []\<rparr>"

definition fetch_user_tweets :: "(string \<Rightarrow> response) \<Rightarrow> string \<Rightarrow> raw_data" where
  "fetch_user_tweets api sn =
     (case api sn of
        Data d \<Rightarrow> d
      | NoData \<Rightarrow> empty_data
      | RequestFailed \<Rightarrow> empty_data)"

text \<open>
  The two functions of Python's \<open>datetime\<close> that the source calls on provider data:
  \<open>strptime\<close> with the format of \<open>_parse_tweet_datetime\<close> followed by \<open>astimezone\<close>
  (\<open>None\<close> when either raises), and \<open>isoformat\<close>.
\<close>

record pylib =
  strptime :: "string \<Rightarrow> datetime option"
  isoformat :: "datetime \<Rightarrow> string"

definition parse_tweet_datetime :: "pylib \<Rightarrow> string \<Rightarrow> datetime option" where
  "parse_tweet_datetime lib created_at =
     (case strptime lib created_at of Some dt \<Rightarrow> Some dt | None \<Rightarrow> None)"

definition is_in_window :: "datetime option \<Rightarrow> datetime \<Rightarrow> datetime \<Rightarrow> bool" where
  "is_in_window tweet_time lct now =
     (case tweet_time of None \<Rightarrow> False | Some t \<Rightarrow> lct < t \<and> t \<le> now)"

section \<open>Decision records\<close>

record decision_record =
  dr_poll_id :: string
  dr_run_id :: string
  dr_account :: string
  dr_tweet_id :: string
  dr_tier :: string
  stage :: string
  decision :: string
  reason_code :: string
  matched_rule :: string

text \<open>
  One call of \<open>DecisionLogger.log\<close>; \<open>run_id or poll_id\<close> is taken there. The calls of
  \<open>fetch\<close> are guarded by \<open>if decision_logger\<close>: \<open>log_if\<close>.
\<close>

definition log_record ::
  "string \<Rightarrow> string \<Rightarrow> string \<Rightarrow> string \<Rightarrow> string \<Rightarrow> string \<Rightarrow> string \<Rightarrow> string \<Rightarrow> string
     \<Rightarrow> decision_record" where
  "log_record pid rid acct tid tr stg dec rc mr =
     \<lparr>dr_poll_id = pid, dr_run_id = (if rid = [] then pid else rid), dr_account = acct,
      dr_tweet_id = tid, dr_tier = tr, stage = stg, decision = dec, reason_code = rc,
      matched_rule = mr\<rparr>"

definition log_if :: "bool \<Rightarrow> decision_record \<Rightarrow> decision_record list" where
  "log_if decision_logger r = (if decision_logger then [r] else [])"

section \<open>Window filter\<close>

definition candidates :: "raw_data \<Rightarrow> tweet list" where
  "candidates rd =
     (case pinned rd of
        None \<Rightarrow> []
      | Some p \<Rightarrow> (if p = [] then [] else [p])) @ timeline rd"

text \<open>
  The loop of \<open>_extract_tweets\<close> over the candidates, with its accumulator \<open>filtered\<close>
  and the records logged so far.
\<close>

fun window_loop ::
  "pylib \<Rightarrow> bool \<Rightarrow> string \<Rightarrow> string \<Rightarrow> string \<Rightarrow> string \<Rightarrow> datetime \<Rightarrow> datetime
     \<Rightarrow> tweet list \<Rightarrow> tweet list \<Rightarrow> decision_record list
     \<Rightarrow> tweet list \<times> decision_record list" where
  "window_loop lib dl pid rid sn tr lct now [] filtered logged = (filtered, logged)"
| "window_loop lib dl pid rid sn tr lct now (t # ts) filtered logged =
     (let tweet_id = dict_get t ''tweet_id'' ''unknown'';
          created_at = dict_get t ''created_at'' [];
          tweet_time = parse_tweet_datetime lib created_at;
          logged1 = logged @ log_if dl
            (log_record pid rid sn tweet_id tr ''raw'' ''pass'' ''RAW_FETCHED'' [])
      in if is_in_window tweet_time lct now then
           window_loop lib dl pid rid sn tr lct now ts (filtered @ [t])
             (logged1 @ log_if dl
               (log_record pid rid sn tweet_id tr ''window'' ''pass'' ''WINDOW_IN_RANGE'' []))
         else
           window_loop lib dl pid rid sn tr lct now ts filtered
             (logged1 @ log_if dl
               (log_record pid rid sn tweet_id tr ''window'' ''drop'' ''WINDOW_OLD'' created_at)))"

definition extract_tweets ::
  "pylib \<Rightarrow> twitter_source \<Rightarrow> raw_data \<Rightarrow> string \<Rightarrow> datetime \<Rightarrow> string \<Rightarrow> string \<Rightarrow> string
     \<Rightarrow> bool \<Rightarrow> (tweet list \<times> decision_record list) \<times> twitter_source" where
  "extract_tweets lib src rd sn now pid rid tr dl =
     (let tweets = candidates rd;
          (st, src') = get_state src sn;
          lct = last_check_time st
      in (window_loop lib dl pid rid sn tr lct now tweets [] [], src'))"

section \<open>Classifier\<close>

text \<open>The scan \<open>for kw in keywords: if kw in text_lower: return ...\<close>.\<close>

fun first_hit :: "string list \<Rightarrow> string \<Rightarrow> string option" where
  "first_hit [] text = None"
| "first_hit (kw # kws) text = (if sublist kw text then Some kw else first_hit kws text)"

definition vendor_ai_news :: string where
  "vendor_ai_news = ''AI'' @ [CHR 0xE5, CHR 0xBF, CHR 0xAB, CHR 0xE8, CHR 0xAE, CHR 0xAF]"

definition rule_not_big_vendor :: string where
  "rule_not_big_vendor =
     vendor_ai_news @
     [CHR 0x5F, CHR 0xE9, CHR 0x9D, CHR 0x9E, CHR 0xE5, CHR 0xA4, CHR 0xA7, CHR 0xE5, CHR 0x8E,
      CHR 0x82]"

definition filter_keywords :: "string list" where
  "filter_keywords =
     [''perplexity'', ''kane ai'', ''keep'', ''raycast'', ''alfred'',
      ''linear'', ''notion'', ''obsidian'', ''cursor'']"

definition important_keywords :: "string list" where
  "important_keywords =
     [''openai'', ''anthropic'', ''google'', ''meta'', ''microsoft'', ''apple'', ''amazon'',
      ''deepseek'', ''mistral'', ''llama'', ''claude'', ''gpt'', ''gemini'',
      ''chatgpt'', ''copilot'', ''cursor'', ''windsurf'']"

definition major_keywords :: "string list" where
  "major_keywords =
     [''release'', ''launch'', ''new model'', ''new api'', ''new mode'', ''new feature'',
      ''announce'', ''introduce'', ''introducing'', ''debut'',
      ''gpt-'', ''claude-'', ''gemini'', ''codex'', ''operator'',
      ''version 2'', ''version 3'', ''version 4'', ''version 5'',
      ''veo'', ''sora'', ''gemini 2'', ''claude 4'', ''gpt-5'',
      ''meet '', ''meet+'']"

definition minor_keywords :: "string list" where
  "minor_keywords =
     [''update'', ''fix'', ''bug'', ''optimize'', ''improve'', ''patch'',
      ''now support'', ''add '', ''enhance'',
      ''demo'', ''showcase'', ''example'', ''walkthrough'', ''how to'',
      ''new capability'', ''improvement'', ''new feature'',
      ''introducing'', ''announcing'', ''available'']"

definition noise_keywords :: "string list" where
  "noise_keywords = [''hiring'', ''job '', ''event'', ''meetup'', ''podcast'', ''welcoming'']"

text \<open>The block of \<open>_detect_importance_with_rule\<close> under \<open>if vendor == "AI..."\<close>.\<close>

definition attention_filter :: "string \<Rightarrow> (string \<times> string) option" where
  "attention_filter text_lower =
     (case first_hit filter_keywords text_lower of
        Some kw \<Rightarrow> Some (''filter'', kw)
      | None \<Rightarrow>
          (let has_important = list_ex (\<lambda>kw. sublist kw text_lower) important_keywords
           in if \<not> has_important then Some (''filter'', rule_not_big_vendor) else None))"

definition keyword_scan :: "string \<Rightarrow> string \<times> string" where
  "keyword_scan text_lower =
     (case first_hit major_keywords text_lower of
        Some kw \<Rightarrow> (''major'', kw)
      | None \<Rightarrow>
          (case first_hit minor_keywords text_lower of
             Some kw \<Rightarrow> (''minor'', kw)
           | None \<Rightarrow> (''normal'', [])))"

definition detect_importance_with_rule :: "string \<Rightarrow> string \<Rightarrow> string \<times> string" where
  "detect_importance_with_rule text vnd =
     (let text_lower = lower text in
      case (if vnd = vendor_ai_news then attention_filter text_lower else None) of
        Some r \<Rightarrow> r
      | None \<Rightarrow> keyword_scan text_lower)"

definition founder_suffix :: string where
  "founder_suffix =
     [CHR 0x20, CHR 0x28, CHR 0xE5, CHR 0x88, CHR 0x9B, CHR 0xE5, CHR 0xA7, CHR 0x8B, CHR 0xE4,
      CHR 0xBA, CHR 0xBA, CHR 0x29]"

definition get_vendor :: "twitter_source \<Rightarrow> string \<Rightarrow> string" where
  "get_vendor src sn =
     (case vendor_map src (lower sn) of
        None \<Rightarrow> sn
      | Some (v, founder) \<Rightarrow> (if founder then v @ founder_suffix else v))"

text \<open>
  A \<open>NewsItem\<close>. The attributes that \<open>fetch\<close> attaches after construction are absent
  (\<open>None\<close>) on the items of the other sources.
\<close>

record news_item =
  item_source :: string
  title :: string
  url :: string
  summary :: string
  published_at :: string
  item_vendor :: "string option"
  importance :: "string option"
  item_account :: "string option"
  item_tweet_id :: "string option"
  item_tier :: "string option"
  selected_reason :: "string option"

text \<open>
  The body of the loop \<open>for tweet in tweets\<close> of \<open>fetch\<close>: the records it logs and the
  item it appends, if any.
\<close>

definition classify_tweet ::
  "pylib \<Rightarrow> bool \<Rightarrow> string \<Rightarrow> string \<Rightarrow> string \<Rightarrow> string \<Rightarrow> string \<Rightarrow> tweet
     \<Rightarrow> decision_record list \<times> news_item option" where
  "classify_tweet lib dl pid rid sn tr vnd tweet =
     (let tweet_id = dict_get tweet ''tweet_id'' [];
          text = dict_get tweet ''text'' []
      in if text = [] then ([], None)
      else
        let (imp, importance_rule) = detect_importance_with_rule text vnd in
        if imp = ''filter'' then
          (log_if dl (log_record pid rid sn tweet_id tr
             ''importance'' ''drop'' ''IMPORTANCE_FILTER'' importance_rule), None)
        else if imp \<in> {''normal'', ''filter''} then
          (log_if dl (log_record pid rid sn tweet_id tr
             ''importance'' ''drop'' ''IMPORTANCE_NORMAL'' []), None)
        else
          let logged1 = log_if dl (log_record pid rid sn tweet_id tr
                ''importance'' ''pass'' ''IMPORTANCE_PASS'' importance_rule);
              text_lower = lower text;
              hit_noise = (case first_hit noise_keywords text_lower of
                             Some kw \<Rightarrow> kw | None \<Rightarrow> [])
          in if hit_noise \<noteq> [] then
               (logged1 @ log_if dl (log_record pid rid sn tweet_id tr
                  ''noise'' ''drop'' ''NOISE_KEYWORD'' hit_noise), None)
             else
               let logged2 = logged1 @ log_if dl (log_record pid rid sn tweet_id tr
                     ''noise'' ''pass'' ''NOISE_PASS'' []);
                   created_at = dict_get tweet ''created_at'' [];
                   tweet_time = parse_tweet_datetime lib created_at;
                   item =
                     \<lparr>item_source = ''Twitter:'' @ sn,
                      title = (if length text > 80 then take 80 text @ ''...'' else text),
                      url = ''https://x.com/'' @ sn @ ''/status/'' @ tweet_id,
                      summary = take 400 text,
                      published_at =
                        (case tweet_time of Some t \<Rightarrow> isoformat lib t | None \<Rightarrow> []),
                      item_vendor = Some vnd,
                      importance =
                        Some (if imp \<notin> {''filter'', ''normal''} then imp else ''minor''),
                      item_account = Some sn,
                      item_tweet_id = Some tweet_id,
                      item_tier = Some tr,
                      selected_reason =
                        Some (''importance:'' @
                              (if importance_rule = [] then ''n/a'' else importance_rule))\<rparr>
               in (logged2, Some item))"

fun classify_loop ::
  "pylib \<Rightarrow> bool \<Rightarrow> string \<Rightarrow> string \<Rightarrow> string \<Rightarrow> string \<Rightarrow> string \<Rightarrow> tweet list
     \<Rightarrow> decision_record list \<Rightarrow> news_item list
     \<Rightarrow> decision_record list \<times> news_item list" where
  "classify_loop lib dl pid rid sn tr vnd [] logged items = (logged, items)"
| "classify_loop lib dl pid rid sn tr vnd (t # ts) logged items =
     (case classify_tweet lib dl pid rid sn tr vnd t of
        (recs, None) \<Rightarrow> classify_loop lib dl pid rid sn tr vnd ts (logged @ recs) items
      | (recs, Some item) \<Rightarrow>
          classify_loop lib dl pid rid sn tr vnd ts (logged @ recs) (items @ [item]))"

section \<open>One poll and one tick\<close>

text \<open>
  The body of the loop \<open>for acc in self.accounts\<close> of \<open>fetch\<close>, for the poll start time
  \<open>now\<close>: the items appended to \<open>all_items\<close>, the records logged and the source after it.
  \<open>state\<close> is the dictionary held in \<open>account_states\<close>, so the assignment to
  \<open>state["last_check_time"]\<close> is a store under the account's key.
\<close>

definition poll_account ::
  "pylib \<Rightarrow> (string \<Rightarrow> response) \<Rightarrow> bool \<Rightarrow> string \<Rightarrow> string \<Rightarrow> datetime \<Rightarrow> twitter_source
     \<Rightarrow> account \<Rightarrow> (news_item list \<times> decision_record list) \<times> twitter_source" where
  "poll_account lib api dl pid rid now src acc =
     (let sn = strip (screen_name acc) in
      if sn = [] then (([], []), src)
      else
        let (st, src1) = get_state src sn;
            tr = tier st;
            (due, src2) = should_poll_account src1 sn now
        in if \<not> due then (([], []), src2)
        else
          let rd = fetch_user_tweets api sn;
              rid' = (if rid = [] then pid else rid);
              ((tweets, logged1), src3) = extract_tweets lib src2 rd sn now pid rid' tr dl;
              (logged2, items) =
                classify_loop lib dl pid rid' sn tr (get_vendor src3 sn) tweets [] [];
              (st', src4) = get_state src3 sn;
              src5 = put_state src4 sn (st'\<lparr>last_check_time := now\<rparr>);
              src6 = advance_account_schedule src5 sn (length items > 0) now
          in ((items, logged1 @ logged2), src6))"

fun fetch_loop ::
  "pylib \<Rightarrow> (string \<Rightarrow> response) \<Rightarrow> bool \<Rightarrow> string \<Rightarrow> string \<Rightarrow> datetime \<Rightarrow> account list
     \<Rightarrow> twitter_source \<Rightarrow> news_item list \<Rightarrow> decision_record list
     \<Rightarrow> (news_item list \<times> decision_record list) \<times> twitter_source" where
  "fetch_loop lib api dl pid rid now [] src all_items logged = ((all_items, logged), src)"
| "fetch_loop lib api dl pid rid now (acc # accs) src all_items logged =
     (let ((items, recs), src') = poll_account lib api dl pid rid now src acc
      in fetch_loop lib api dl pid rid now accs src' (all_items @ items) (logged @ recs))"

definition fetch ::
  "pylib \<Rightarrow> (string \<Rightarrow> response) \<Rightarrow> bool \<Rightarrow> string \<Rightarrow> string \<Rightarrow> datetime \<Rightarrow> twitter_source
     \<Rightarrow> (news_item list \<times> decision_record list) \<times> twitter_source" where
  "fetch lib api dl pid rid now src =
     fetch_loop lib api dl pid rid now (accounts src) src [] []"

text \<open>
  The process: the source is built at \<open>t0\<close> and \<open>fetch\<close> runs once per tick, each tick
  with its own clock reading, poll id and provider replies.
\<close>

record tick =
  tick_now :: datetime
  tick_poll_id :: string
  tick_api :: "string \<Rightarrow> response"

fun run_ticks :: "pylib \<Rightarrow> bool \<Rightarrow> twitter_source \<Rightarrow> tick list \<Rightarrow> twitter_source" where
  "run_ticks lib dl src [] = src"
| "run_ticks lib dl src (tk # tks) =
     run_ticks lib dl
       (snd (fetch lib (tick_api tk) dl (tick_poll_id tk) (tick_poll_id tk) (tick_now tk) src))
       tks"

section \<open>Notifier classification\<close>

text \<open>\<open>TelegramNotifier._detect_importance\<close>, over the title and the summary.\<close>

definition acquisition_keywords :: "string list" where
  "acquisition_keywords =
     [''acqui'', ''acquisition'', ''acquire'', ''merge'', ''merger'',
      [CHR 0xE6, CHR 0x94, CHR 0xB6, CHR 0xE8, CHR 0xB4, CHR 0xAD],
      [CHR 0xE5, CHR 0xB9, CHR 0xB6, CHR 0xE8, CHR 0xB4, CHR 0xAD],
      [CHR 0xE5, CHR 0x90, CHR 0x88, CHR 0xE5, CHR 0xB9, CHR 0xB6],
      ''acquired'', ''acquires'', ''acquired by'']"

definition notifier_major_keywords :: "string list" where
  "notifier_major_keywords =
     [''new'', ''release'', ''launch'', ''debut'', ''introduce'', ''announce'',
      [CHR 0xE6, CHR 0x96, CHR 0xB0],
      [CHR 0xE5, CHR 0x8F, CHR 0x91, CHR 0xE5, CHR 0xB8, CHR 0x83],
      [CHR 0xE6, CHR 0x8E, CHR 0xA8, CHR 0xE5, CHR 0x87, CHR 0xBA],
      [CHR 0xE4, CHR 0xB8, CHR 0x8A, CHR 0xE7, CHR 0xBA, CHR 0xBF],
      [CHR 0xE9, CHR 0xA6, CHR 0x96, CHR 0xE5, CHR 0x8F, CHR 0x91],
      [CHR 0xE9, CHR 0x87, CHR 0x8D, CHR 0xE5, CHR 0xA4, CHR 0xA7],
      ''gpt-5'', ''gpt4'', ''claude-4'', ''opus'', ''sonnet'',
      ''gemini'', ''llama'', ''deepseek'', ''qwen'', ''minimax'',
      ''model'', ''api'', ''version'', ''v2'', ''v3'', ''v4'', ''v5'',
      ''feature'', ''plugin'', ''mode'', ''extend'', ''support'',
      ''cowork'', ''codex'', ''app'', ''agent'', ''tool'']"

definition notifier_normal_keywords :: "string list" where
  "notifier_normal_keywords =
     [''fix'', ''patch'', ''bug'', ''hotfix'', ''maintenance'', ''update'',
      [CHR 0xE4, CHR 0xBF, CHR 0xAE, CHR 0xE5, CHR 0xA4, CHR 0x8D],
      [CHR 0xE8, CHR 0xA1, CHR 0xA5, CHR 0xE4, CHR 0xB8, CHR 0x81],
      [CHR 0xE7, CHR 0xBB, CHR 0xB4, CHR 0xE6, CHR 0x8A, CHR 0xA4]]"

definition detect_importance :: "news_item \<Rightarrow> string" where
  "detect_importance item =
     (let text = lower (strip (title item @ '' '' @ summary item)) in
      case first_hit acquisition_keywords text of
        Some kw \<Rightarrow> ''minor''
      | None \<Rightarrow>
          (case first_hit notifier_major_keywords text of
             Some kw \<Rightarrow> ''major''
           | None \<Rightarrow>
               (case first_hit notifier_normal_keywords text of
                  Some kw \<Rightarrow> ''normal''
                | None \<Rightarrow> ''normal'')))"

section \<open>Fingerprint store\<close>

text \<open>\<open>str.split()\<close> on white space and \<open>" ".join\<close>.\<close>

fun split_ws :: "string \<Rightarrow> string \<Rightarrow> string list" where
  "split_ws cur [] = (if cur = [] then [] else [cur])"
| "split_ws cur (c # cs) =
     (if is_space c then (if cur = [] then split_ws [] cs else cur # split_ws [] cs)
      else split_ws (cur @ [c]) cs)"

fun join_space :: "string list \<Rightarrow> string" where
  "join_space [] = []"
| "join_space [w] = w"
| "join_space (w # ws) = w @ '' '' @ join_space ws"

text \<open>\<open>sha256\<close> is the digest of \<open>hashlib\<close>, in hexadecimal.\<close>

definition build_item_hash :: "(string \<Rightarrow> string) \<Rightarrow> news_item \<Rightarrow> string" where
  "build_item_hash sha256 item =
     (let normalized_title = join_space (split_ws [] (lower (strip (title item))));
          raw = normalized_title @ ''|'' @ take 10 (strip (published_at item))
      in sha256 raw)"

text \<open>
  The table \<open>entries\<close> holds the rows inserted so far, each with its \<open>content_hash\<close>,
  a column declared \<open>UNIQUE\<close>. An \<open>INSERT\<close> ends in one of three ways: the row is
  stored; the hash is already in the table and SQLite raises \<open>IntegrityError\<close>; or the
  statement or its commit raises another exception (\<open>fault\<close>: a locked database, a full
  disk) and the transaction is rolled back.
\<close>

datatype insert_outcome = Inserted | IntegrityError | OtherError

record storage =
  entries :: "(news_item \<times> string) list"

definition db_insert :: "bool \<Rightarrow> storage \<Rightarrow> news_item \<Rightarrow> string \<Rightarrow> insert_outcome \<times> storage" where
  "db_insert fault db item h =
     (if fault then (OtherError, db)
      else if h \<in> snd ` set (entries db) then (IntegrityError, db)
      else (Inserted, db\<lparr>entries := entries db @ [(item, h)]\<rparr>))"

definition save_if_new ::
  "(string \<Rightarrow> string) \<Rightarrow> bool \<Rightarrow> storage \<Rightarrow> news_item \<Rightarrow> bool \<times> storage" where
  "save_if_new sha256 fault db item =
     (let item_hash = build_item_hash sha256 item in
      case db_insert fault db item item_hash of
        (Inserted, db') \<Rightarrow> (True, db')
      | (IntegrityError, db') \<Rightarrow> (False, db')
      | (OtherError, db') \<Rightarrow> (False, db'))"

section \<open>The main loop body\<close>

text \<open>\<open>item.source.replace("Twitter:", "")\<close>: the counter is the rest of a match.\<close>

fun remove_twitter :: "nat \<Rightarrow> string \<Rightarrow> string" where
  "remove_twitter k [] = []"
| "remove_twitter (Suc k) (c # cs) = remove_twitter k cs"
| "remove_twitter 0 (c # cs) =
     (if prefix ''Twitter:'' (c # cs) then remove_twitter 7 cs else c # remove_twitter 0 cs)"

definition account_of :: "news_item \<Rightarrow> string" where
  "account_of item =
     (case item_account item of Some a \<Rightarrow> a | None \<Rightarrow> remove_twitter 0 (item_source item))"

definition tweet_id_of :: "news_item \<Rightarrow> string" where
  "tweet_id_of item = (case item_tweet_id item of Some t \<Rightarrow> t | None \<Rightarrow> [])"

definition tier_of :: "news_item \<Rightarrow> string" where
  "tier_of item = (case item_tier item of Some t \<Rightarrow> t | None \<Rightarrow> ''A'')"

definition importance_of :: "news_item \<Rightarrow> string" where
  "importance_of item =
     (case importance item of
        Some i \<Rightarrow> (if i \<noteq> [] then i else detect_importance item)
      | None \<Rightarrow> detect_importance item)"

text \<open>
  The loop \<open>for item in items\<close> of \<open>run_once\<close>. \<open>faults n\<close> tells whether the \<open>n\<close>-th
  insert of the run meets a storage failure. The state is the store, the number of
  inserts so far, \<open>staged_items\<close> and the records logged.
\<close>

record staging =
  store :: storage
  inserts :: nat
  staged_items :: "news_item list"
  stage_log :: "decision_record list"

definition stage_item ::
  "(string \<Rightarrow> string) \<Rightarrow> (nat \<Rightarrow> bool) \<Rightarrow> string \<Rightarrow> staging \<Rightarrow> news_item \<Rightarrow> staging" where
  "stage_item sha256 faults pid sg item =
     (if importance_of item \<notin> {''major'', ''minor''} then sg
      else
        let acct = account_of item;
            tweet_id = tweet_id_of item;
            tr = tier_of item;
            (saved, db') = save_if_new sha256 (faults (inserts sg)) (store sg) item
        in if saved then
             sg\<lparr>store := db', inserts := Suc (inserts sg),
                staged_items := staged_items sg @ [item],
                stage_log := stage_log sg @
                  [log_record pid pid acct tweet_id tr ''dedupe'' ''pass'' ''DEDUPE_NEW''
                     (case selected_reason item of Some r \<Rightarrow> r | None \<Rightarrow> [])]\<rparr>
           else
             sg\<lparr>store := db', inserts := Suc (inserts sg),
                stage_log := stage_log sg @
                  [log_record pid pid acct tweet_id tr ''dedupe'' ''drop'' ''DEDUPE_HASH''
                     ''content_hash_exists'']\<rparr>)"

definition stage_items ::
  "(string \<Rightarrow> string) \<Rightarrow> (nat \<Rightarrow> bool) \<Rightarrow> string \<Rightarrow> staging \<Rightarrow> news_item list \<Rightarrow> staging" where
  "stage_items sha256 faults pid sg items = foldl (stage_item sha256 faults pid) sg items"

text \<open>
  The notifier is the environment: \<open>send_batch\<close> answers for a whole batch, and
  \<open>send i item\<close> for the \<open>i\<close>-th single send of the run. Neither raises: \<open>_send_text\<close>
  catches every exception of the request. The calls made are recorded in order.
\<close>

record notifier =
  send_batch :: "news_item list \<Rightarrow> bool"
  send :: "nat \<Rightarrow> news_item \<Rightarrow> bool"

datatype notifier_call = SendBatch "news_item list" | Send news_item

record pushing =
  pushed :: nat
  push_log :: "decision_record list"
  calls :: "notifier_call list"

text \<open>The two loops that send the staged items one by one, \<open>i\<close> sends having been made.\<close>

fun send_each :: "notifier \<Rightarrow> string \<Rightarrow> string \<Rightarrow> nat \<Rightarrow> news_item list \<Rightarrow> pushing \<Rightarrow> pushing" where
  "send_each nt pid rule i [] ps = ps"
| "send_each nt pid rule i (item # items) ps =
     (let acct = account_of item;
          tweet_id = tweet_id_of item;
          tr = tier_of item;
          ok = send nt i item
      in send_each nt pid rule (Suc i) items
           (ps\<lparr>pushed := (if ok then Suc (pushed ps) else pushed ps),
               push_log := push_log ps @
                 [log_record pid pid acct tweet_id tr ''push''
                    (if ok then ''pass'' else ''drop'')
                    (if ok then ''PUSH_OK'' else ''PUSH_FAIL'') rule],
               calls := calls ps @ [Send item]\<rparr>))"

fun join_comma :: "string list \<Rightarrow> string" where
  "join_comma [] = []"
| "join_comma [w] = w"
| "join_comma (w # ws) = w @ '','' @ join_comma ws"

definition push_staged :: "notifier \<Rightarrow> bool \<Rightarrow> string \<Rightarrow> news_item list \<Rightarrow> pushing" where
  "push_staged nt night pid staged =
     (let ps0 = \<lparr>pushed = 0, push_log = [], calls = []\<rparr> in
      if staged = [] then ps0
      else if night then send_each nt pid ''night_single'' 0 staged ps0
      else
        let batch_tweet_ids = map tweet_id_of staged;
            ok = send_batch nt staged;
            ps1 = ps0\<lparr>push_log :=
                        [log_record pid pid ''__batch__'' (join_comma batch_tweet_ids) ''-''
                           ''push'' (if ok then ''pass'' else ''drop'')
                           (if ok then ''PUSH_OK'' else ''PUSH_FAIL'') ''day_batch''],
                      calls := [SendBatch staged]\<rparr>
        in if ok then
             ps1\<lparr>pushed := length staged,
                 push_log := push_log ps1 @
                   map (\<lambda>item. log_record pid pid (account_of item) (tweet_id_of item)
                          (tier_of item) ''push'' ''pass'' ''PUSH_OK'' ''day_batch'') staged\<rparr>
           else send_each nt pid ''day_batch_fallback_single'' 0 staged ps1)"

text \<open>
  \<open>run_once\<close> over the item lists that the sources returned in this run; \<open>night\<close> is
  the reading of \<open>_is_night_window_beijing\<close> when the staging is over.
\<close>

definition run_once ::
  "(string \<Rightarrow> string) \<Rightarrow> (nat \<Rightarrow> bool) \<Rightarrow> notifier \<Rightarrow> bool \<Rightarrow> string \<Rightarrow> storage
     \<Rightarrow> news_item list list \<Rightarrow> staging \<times> pushing" where
  "run_once sha256 faults nt night pid db fetched =
     (let sg = foldl (stage_items sha256 faults pid)
                 \<lparr>store = db, inserts = 0, staged_items = [], stage_log = []\<rparr> fetched
      in (sg, push_staged nt night pid (staged_items sg)))"

section \<open>Specification-side definitions\<close>

text \<open>The window test of one candidate, and the two records the window filter owes it.\<close>

definition in_window_tweet :: "pylib \<Rightarrow> datetime \<Rightarrow> datetime \<Rightarrow> tweet \<Rightarrow> bool" where
  "in_window_tweet lib lct now t =
     is_in_window (parse_tweet_datetime lib (dict_get t ''created_at'' [])) lct now"



text \<open>The records and the items of one poll of a due account whose state is \<open>st\<close>.\<close>

definition polled_items ::
  "pylib \<Rightarrow> (string \<Rightarrow> response) \<Rightarrow> bool \<Rightarrow> string \<Rightarrow> string \<Rightarrow> datetime \<Rightarrow> twitter_source
     \<Rightarrow> string \<Rightarrow> account_state \<Rightarrow> decision_record list \<times> news_item list" where
  "polled_items lib api dl pid rid now src sn st =
     classify_loop lib dl pid (if rid = [] then pid else rid) sn (tier st) (get_vendor src sn)
       (filter (in_window_tweet lib (last_check_time st) now)
          (candidates (fetch_user_tweets api sn))) [] []"

text \<open>
  Invariants of the registry over the life of the process, and the shape of what one
  iteration of the account loop does to it.
\<close>

definition streak_ok :: "twitter_source \<Rightarrow> bool" where
  "streak_ok src \<longleftrightarrow>
     (\<forall>k st. account_states src k = Some st \<longrightarrow> 0 \<le> no_news_streak st \<and> no_news_streak st \<le> 6)"

definition clock_ok :: "twitter_source \<Rightarrow> datetime \<Rightarrow> bool" where
  "clock_ok src c \<longleftrightarrow>
     init_time src \<le> c \<and>
     (\<forall>k st. account_states src k = Some st \<longrightarrow> last_check_time st \<le> c)"


definition poll_shape :: "twitter_source \<Rightarrow> twitter_source \<Rightarrow> datetime \<Rightarrow> bool" where
  "poll_shape src src' now \<longleftrightarrow>
     (\<exists>st. \<forall>k. account_states src' k = account_states src k \<or>
        (account_states src k = None \<and>
         account_states src' k = Some (fresh_state ''A'' (init_time src))) \<or>
        ((account_states src k = Some st \<or>
          (account_states src k = None \<and> st = fresh_state ''A'' (init_time src))) \<and>
         (\<exists>news. account_states src' k =
            Some (advance_state (st\<lparr>last_check_time := now\<rparr>) news now))))"

definition registered :: "twitter_source \<Rightarrow> string set \<Rightarrow> bool" where
  "registered src ks \<longleftrightarrow> (\<forall>k\<in>ks. \<exists>s. account_states src k = Some s)"

definition account_keys :: "account list \<Rightarrow> string set" where
  "account_keys accs =
     {lower (strip (screen_name acc)) | acc. acc \<in> set accs \<and> strip (screen_name acc) \<noteq> []}"



definition accepted_label :: "news_item \<Rightarrow> bool" where
  "accepted_label item \<longleftrightarrow> importance item = Some ''major'' \<or> importance item = Some ''minor''"

definition push_record :: "string \<Rightarrow> string \<Rightarrow> bool \<Rightarrow> news_item \<Rightarrow> decision_record" where
  "push_record pid rule ok item =
     log_record pid pid (account_of item) (tweet_id_of item) (tier_of item) ''push''
       (if ok then ''pass'' else ''drop'') (if ok then ''PUSH_OK'' else ''PUSH_FAIL'') rule"

definition batch_record :: "string \<Rightarrow> bool \<Rightarrow> news_item list \<Rightarrow> decision_record" where
  "batch_record pid ok staged =
     log_record pid pid ''__batch__'' (join_comma (map tweet_id_of staged)) ''-'' ''push''
       (if ok then ''pass'' else ''drop'') (if ok then ''PUSH_OK'' else ''PUSH_FAIL'') ''day_batch''"


section \<open>A sample run\<close>

text \<open>
  A stand-in for the library (a timestamp is a string of decimal digits, read as
  microseconds), one configured account, provider replies and two ticks.
\<close>

definition is_digit :: "char \<Rightarrow> bool" where
  "is_digit c = (let n = (of_char c :: nat) in 48 \<le> n \<and> n \<le> 57)"

definition sample_strptime :: "string \<Rightarrow> datetime option" where
  "sample_strptime s =
     (if s \<noteq> [] \<and> list_all is_digit s
      then Some (foldl (\<lambda>n c. 10 * n + (of_char c - 48)) 0 s) else None)"

definition sample_isoformat :: "datetime \<Rightarrow> string" where
  "sample_isoformat t = ''2026-01-01T08:00:00+08:00''"

definition sample_lib :: pylib where
  "sample_lib = \<lparr>strptime = sample_strptime, isoformat = sample_isoformat\<rparr>"

definition sample_account :: account where
  "sample_account = \<lparr>screen_name = '' OpenAI '', acc_tier = ''s'', vendor = ''OpenAI'',
                       is_founder = False\<rparr>"

definition sample_source :: twitter_source where
  "sample_source = init_source [sample_account] 0"

definition failing_api :: "string \<Rightarrow> response" where
  "failing_api sn = RequestFailed"

definition sample_data :: raw_data where
  "sample_data =
     \<lparr>pinned = Some [(''tweet_id'', ''1''), (''created_at'', ''0''),
                     (''text'', ''Introducing our new model'')],
      timeline =
        [[(''tweet_id'', ''2''), (''created_at'', ''500''), (''text'', ''OpenAI ships GPT-5'')],
         [(''tweet_id'', ''3''), (''created_at'', ''1000''), (''text'', ''bug fix'')],
         [(''tweet_id'', ''4''), (''created_at'', ''600'')],
         [(''tweet_id'', ''5''), (''text'', ''We launch today'')],
         [(''tweet_id'', ''6''), (''created_at'', ''700''), (''text'', ''Nice weather'')],
         [(''tweet_id'', ''7''), (''created_at'', ''800''),
          (''text'', ''We are hiring: new model team'')]]\<rparr>"

definition sample_api :: "string \<Rightarrow> response" where
  "sample_api sn = Data sample_data"

definition sample_tick1 :: tick where
  "sample_tick1 = \<lparr>tick_now = 1000, tick_poll_id = ''p1'', tick_api = failing_api\<rparr>"

definition sample_tick2 :: tick where
  "sample_tick2 = \<lparr>tick_now = 7200000000, tick_poll_id = ''p2'', tick_api = sample_api\<rparr>"

definition polled_state :: account_state where
  "polled_state = \<lparr>tier = ''S'', last_check_time = 1000, last_polled_at = Some 1000,
                    no_news_streak = 1, next_due_at = Some 3600001000\<rparr>"



definition sample_item1 :: news_item where
  "sample_item1 =
     \<lparr>item_source = ''Twitter:OpenAI'', title = ''OpenAI ships GPT-5'',
      url = ''https://x.com/OpenAI/status/2'', summary = ''OpenAI ships GPT-5'',
      published_at = ''2026-01-01T08:00:00+08:00'', item_vendor = Some ''OpenAI'',
      importance = Some ''major'', item_account = Some ''OpenAI'', item_tweet_id = Some ''2'',
      item_tier = Some ''S'', selected_reason = Some ''importance:gpt-''\<rparr>"

definition sample_item2 :: news_item where
  "sample_item2 =
     \<lparr>item_source = ''Twitter:OpenAI'', title = ''bug fix'',
      url = ''https://x.com/OpenAI/status/3'', summary = ''bug fix'',
      published_at = ''2026-01-01T08:00:00+08:00'', item_vendor = Some ''OpenAI'',
      importance = Some ''minor'', item_account = Some ''OpenAI'', item_tweet_id = Some ''3'',
      item_tier = Some ''S'', selected_reason = Some ''importance:fix''\<rparr>"

definition sample_send_batch :: "news_item list \<Rightarrow> bool" where
  "sample_send_batch items = False"

definition sample_send :: "nat \<Rightarrow> news_item \<Rightarrow> bool" where
  "sample_send i item = (i \<noteq> 0)"

definition sample_notifier :: notifier where
  "sample_notifier = \<lparr>send_batch = sample_send_batch, send = sample_send\<rparr>"





section \<open>Auxiliary lemmas\<close>

lemma get_state_cases:
  "get_state src sn = (st, src') \<Longrightarrow>
     account_states src' (lower sn) = Some st \<and>
     init_time src' = init_time src \<and> vendor_map src' = vendor_map src \<and>
     accounts src' = accounts src \<and>
     ((account_states src (lower sn) = Some st \<and> src' = src) \<or>
      (account_states src (lower sn) = None \<and> st = fresh_state ''A'' (init_time src) \<and>
       account_states src' = (account_states src)(lower sn \<mapsto> st)))"
  by (auto simp: get_state_def Let_def split: option.splits)

lemma get_state_registered:
  "account_states src (lower sn) = Some st \<Longrightarrow> get_state src sn = (st, src)"
  by (simp add: get_state_def)

lemma get_state_again:
  "get_state src sn = (st, src') \<Longrightarrow> get_state src' sn = (st, src')"
  by (auto simp: get_state_def Let_def split: option.splits)

lemma get_vendor_get_state:
  "get_state src sn = (st, src') \<Longrightarrow> get_vendor src' sn' = get_vendor src sn'"
  by (auto simp: get_state_def get_vendor_def Let_def split: option.splits)

lemma window_loop_filtered:
  "fst (window_loop lib dl pid rid sn tr lct now ts filtered logged) =
     filtered @ filter (in_window_tweet lib lct now) ts"
  by (induction ts arbitrary: filtered logged) (simp_all add: Let_def in_window_tweet_def)


lemma in_window_tweet_iff:
  "in_window_tweet lib lct now t \<longleftrightarrow>
     (\<exists>ts. strptime lib (dict_get t ''created_at'' []) = Some ts \<and> lct < ts \<and> ts \<le> now)"
  by (auto simp: in_window_tweet_def is_in_window_def parse_tweet_datetime_def
      split: option.splits)

lemma poll_account_effect:
  assumes sn: "sn = strip (screen_name acc)" and ne: "sn \<noteq> []"
    and gs: "get_state src sn = (st, src1)"
  shows "poll_account lib api dl pid rid now src acc =
     (if \<not> should_poll_state st now then (([], []), src1)
      else ((snd (polled_items lib api dl pid rid now src sn st),
             snd (window_loop lib dl pid (if rid = [] then pid else rid) sn (tier st)
                    (last_check_time st) now (candidates (fetch_user_tweets api sn)) [] [])
             @ fst (polled_items lib api dl pid rid now src sn st)),
            put_state src1 sn
              (advance_state (st\<lparr>last_check_time := now\<rparr>)
                 (snd (polled_items lib api dl pid rid now src sn st) \<noteq> []) now)))"
proof -
  have g1: "get_state src1 sn = (st, src1)" using gs by (rule get_state_again)
  have v: "get_vendor src1 sn = get_vendor src sn" using gs by (rule get_vendor_get_state)
  let ?st2 = "st\<lparr>last_check_time := now\<rparr>"
  have g2: "get_state (put_state src1 sn ?st2) sn = (?st2, put_state src1 sn ?st2)"
    by (simp add: get_state_def put_state_def)
  have p2: "put_state (put_state src1 sn ?st2) sn x = put_state src1 sn x" for x
    by (simp add: put_state_def)
  show ?thesis
    using sn[symmetric] ne
    by (simp add: poll_account_def Let_def gs g1 should_poll_account_def extract_tweets_def
        split_beta window_loop_filtered polled_items_def v advance_account_schedule_def g2 p2)
qed

lemma poll_account_states:
  "\<exists>st. \<forall>k. account_states (snd (poll_account lib api dl pid rid now src acc)) k =
     account_states src k \<or>
     (account_states src k = None \<and>
      account_states (snd (poll_account lib api dl pid rid now src acc)) k =
        Some (fresh_state ''A'' (init_time src))) \<or>
     ((account_states src k = Some st \<or>
        (account_states src k = None \<and> st = fresh_state ''A'' (init_time src))) \<and>
      (\<exists>news. account_states (snd (poll_account lib api dl pid rid now src acc)) k =
        Some (advance_state (st\<lparr>last_check_time := now\<rparr>) news now)))"
proof (cases "strip (screen_name acc) = []")
  case True
  then show ?thesis by (simp add: poll_account_def)
next
  case False
  obtain st src1 where gs: "get_state src (strip (screen_name acc)) = (st, src1)"
    by (cases "get_state src (strip (screen_name acc))")
  note c = get_state_cases[OF gs]
  note e = poll_account_effect[OF refl False gs, of lib api dl pid rid now]
  show ?thesis
  proof (rule exI[of _ st], rule allI)
    fix k
    show "account_states (snd (poll_account lib api dl pid rid now src acc)) k =
     account_states src k \<or>
     (account_states src k = None \<and>
      account_states (snd (poll_account lib api dl pid rid now src acc)) k =
        Some (fresh_state ''A'' (init_time src))) \<or>
     ((account_states src k = Some st \<or>
        (account_states src k = None \<and> st = fresh_state ''A'' (init_time src))) \<and>
      (\<exists>news. account_states (snd (poll_account lib api dl pid rid now src acc)) k =
        Some (advance_state (st\<lparr>last_check_time := now\<rparr>) news now)))"
      using c unfolding e by (auto simp: put_state_def)
  qed
qed

lemma poll_account_init_time:
  "init_time (snd (poll_account lib api dl pid rid now src acc)) = init_time src"
proof (cases "strip (screen_name acc) = []")
  case True
  then show ?thesis by (simp add: poll_account_def)
next
  case False
  obtain st src1 where gs: "get_state src (strip (screen_name acc)) = (st, src1)"
    by (cases "get_state src (strip (screen_name acc))")
  show ?thesis
    using get_state_cases[OF gs]
    unfolding poll_account_effect[OF refl False gs] by (simp add: put_state_def)
qed




lemma advance_state_fields:
  "last_check_time (advance_state st news now) = last_check_time st"
  "last_polled_at (advance_state st news now) = Some now"
  "tier (advance_state st news now) = tier st"
  "no_news_streak (advance_state st news now) =
     (if news then 0 else min (no_news_streak st + 1) 6)"
  "next_due_at (advance_state st news now) =
     Some (now + minutes (next_interval_minutes (tier st)
             (if news then 0 else min (no_news_streak st + 1) 6) now))"
  by (simp_all add: advance_state_def Let_def)

lemma fresh_state_fields:
  "last_check_time (fresh_state t i) = i" "no_news_streak (fresh_state t i) = 0"
  "last_polled_at (fresh_state t i) = None" "next_due_at (fresh_state t i) = Some i"
  "tier (fresh_state t i) = t"
  by (simp_all add: fresh_state_def)

lemma advance_streak_bounds:
  "0 \<le> no_news_streak st \<Longrightarrow>
     0 \<le> no_news_streak (advance_state (st\<lparr>last_check_time := t\<rparr>) news now) \<and>
     no_news_streak (advance_state (st\<lparr>last_check_time := t\<rparr>) news now) \<le> 6"
  by (simp add: advance_state_fields)

lemma poll_account_shape:
  "poll_shape src (snd (poll_account lib api dl pid rid now src acc)) now"
  unfolding poll_shape_def by (rule poll_account_states)

lemma poll_shape_streak_ok:
  assumes sh: "poll_shape src src' now" and ok: "streak_ok src"
  shows "streak_ok src'"
proof -
  from sh obtain st where st: "\<And>k. account_states src' k = account_states src k \<or>
        (account_states src k = None \<and>
         account_states src' k = Some (fresh_state ''A'' (init_time src))) \<or>
        ((account_states src k = Some st \<or>
          (account_states src k = None \<and> st = fresh_state ''A'' (init_time src))) \<and>
         (\<exists>news. account_states src' k =
            Some (advance_state (st\<lparr>last_check_time := now\<rparr>) news now)))"
    unfolding poll_shape_def by (elim exE) (rule that, erule spec)
  show ?thesis
    unfolding streak_ok_def
  proof (intro allI impI)
    fix k s'
    assume a: "account_states src' k = Some s'"
    from st[of k] consider
      (same) "account_states src' k = account_states src k"
      | (fresh) "account_states src' k = Some (fresh_state ''A'' (init_time src))"
      | (adv) news where "account_states src k = Some st \<or> st = fresh_state ''A'' (init_time src)"
          "account_states src' k = Some (advance_state (st\<lparr>last_check_time := now\<rparr>) news now)"
      by blast
    then show "0 \<le> no_news_streak s' \<and> no_news_streak s' \<le> 6"
    proof cases
      case same
      with a have "account_states src k = Some s'" by simp
      with ok show ?thesis unfolding streak_ok_def by blast
    next
      case fresh
      with a have "s' = fresh_state ''A'' (init_time src)" by simp
      then show ?thesis by (simp add: fresh_state_fields)
    next
      case adv
      have "0 \<le> no_news_streak st"
      proof (cases "account_states src k = Some st")
        case True
        with ok show ?thesis unfolding streak_ok_def by blast
      next
        case False
        with adv(1) show ?thesis by (simp add: fresh_state_fields)
      qed
      from advance_streak_bounds[OF this, of now news now] adv(2) a
      show ?thesis by simp
    qed
  qed
qed


lemma poll_account_streak_ok:
  "streak_ok src \<Longrightarrow> streak_ok (snd (poll_account lib api dl pid rid now src acc))"
  using poll_account_shape by (rule poll_shape_streak_ok)


lemma fetch_loop_streak_ok:
  "streak_ok src \<Longrightarrow> streak_ok (snd (fetch_loop lib api dl pid rid now accs src items logged))"
proof (induction accs arbitrary: src items logged)
  case Nil
  then show ?case by simp
next
  case (Cons acc accs)
  have "streak_ok (snd (poll_account lib api dl pid rid now src acc))"
    using Cons.prems by (rule poll_account_streak_ok)
  then show ?case
    by (simp add: split_beta Cons.IH)
qed


lemma fetch_loop_init_time:
  "init_time (snd (fetch_loop lib api dl pid rid now accs src items logged)) = init_time src"
  by (induction accs arbitrary: src items logged)
     (simp_all add: split_beta poll_account_init_time)

lemma register_accounts_inv:
  "init_time src = t0 \<Longrightarrow> streak_ok src \<Longrightarrow> clock_ok src t0 \<Longrightarrow>
     init_time (register_accounts t0 accs src) = t0 \<and>
     streak_ok (register_accounts t0 accs src) \<and> clock_ok (register_accounts t0 accs src) t0"
proof (induction accs arbitrary: src)
  case Nil
  then show ?case by simp
next
  case (Cons acc accs)
  show ?case
  proof (cases "strip (screen_name acc) = []")
    case True
    then show ?thesis using Cons by simp
  next
    case False
    let ?src = "src\<lparr>vendor_map := (vendor_map src)(lower (strip (screen_name acc)) \<mapsto>
                       (vendor acc, is_founder acc)),
                    account_states := (account_states src)(lower (strip (screen_name acc)) \<mapsto>
                       fresh_state (coerce_tier (acc_tier acc)) t0)\<rparr>"
    have "init_time ?src = t0" "streak_ok ?src" "clock_ok ?src t0"
      using Cons.prems by (auto simp: streak_ok_def clock_ok_def fresh_state_fields)
    from Cons.IH[OF this] False show ?thesis by (simp add: Let_def)
  qed
qed

lemma init_source_inv:
  "streak_ok (init_source accs t0) \<and> clock_ok (init_source accs t0) t0"
  unfolding init_source_def
  using register_accounts_inv[of "\<lparr>accounts = accs, init_time = t0, vendor_map = Map.empty,
      account_states = Map.empty\<rparr>" t0 accs]
  by (simp add: streak_ok_def clock_ok_def)

lemma run_ticks_streak_ok:
  "streak_ok src \<Longrightarrow> streak_ok (run_ticks lib dl src tks)"
  by (induction tks arbitrary: src) (simp_all add: fetch_def fetch_loop_streak_ok)



lemma poll_shape_keys:
  assumes sh: "poll_shape src src' now" and k: "account_states src k = Some s"
  shows "\<exists>s'. account_states src' k = Some s'"
proof -
  from sh obtain st where st: "\<And>k. account_states src' k = account_states src k \<or>
        (account_states src k = None \<and>
         account_states src' k = Some (fresh_state ''A'' (init_time src))) \<or>
        ((account_states src k = Some st \<or>
          (account_states src k = None \<and> st = fresh_state ''A'' (init_time src))) \<and>
         (\<exists>news. account_states src' k =
            Some (advance_state (st\<lparr>last_check_time := now\<rparr>) news now)))"
    unfolding poll_shape_def by (elim exE) (rule that, erule spec)
  from st[of k] k show ?thesis by auto
qed

lemma poll_account_accounts:
  "accounts (snd (poll_account lib api dl pid rid now src acc)) = accounts src"
proof (cases "strip (screen_name acc) = []")
  case True
  then show ?thesis by (simp add: poll_account_def)
next
  case False
  obtain st src1 where gs: "get_state src (strip (screen_name acc)) = (st, src1)"
    by (cases "get_state src (strip (screen_name acc))")
  show ?thesis
    using get_state_cases[OF gs]
    unfolding poll_account_effect[OF refl False gs] by (simp add: put_state_def)
qed

lemma fetch_loop_registered:
  "registered src ks \<Longrightarrow>
     registered (snd (fetch_loop lib api dl pid rid now accs src items logged)) ks \<and>
     accounts (snd (fetch_loop lib api dl pid rid now accs src items logged)) = accounts src"
proof (induction accs arbitrary: src items logged)
  case Nil
  then show ?case by simp
next
  case (Cons acc accs)
  let ?s1 = "snd (poll_account lib api dl pid rid now src acc)"
  have "registered ?s1 ks"
    unfolding registered_def
  proof
    fix k assume "k \<in> ks"
    with Cons.prems obtain s where "account_states src k = Some s"
      unfolding registered_def by blast
    with poll_account_shape show "\<exists>s. account_states ?s1 k = Some s"
      by (rule poll_shape_keys)
  qed
  from Cons.IH[OF this] show ?case
    by (simp add: split_beta poll_account_accounts)
qed

lemma run_ticks_registered:
  "registered src ks \<Longrightarrow>
     registered (run_ticks lib dl src tks) ks \<and> accounts (run_ticks lib dl src tks) = accounts src"
proof (induction tks arbitrary: src)
  case Nil
  then show ?case by simp
next
  case (Cons tk tks)
  let ?s1 = "snd (fetch lib (tick_api tk) dl (tick_poll_id tk) (tick_poll_id tk) (tick_now tk) src)"
  have f: "registered ?s1 ks" "accounts ?s1 = accounts src"
    using fetch_loop_registered[OF Cons.prems] by (simp_all add: fetch_def)
  from Cons.IH[OF f(1)] f(2) show ?case by simp
qed

lemma register_accounts_registered:
  "registered src ks \<Longrightarrow>
     registered (register_accounts t0 accs src) (ks \<union> account_keys accs) \<and>
     accounts (register_accounts t0 accs src) = accounts src"
proof (induction accs arbitrary: src ks)
  case Nil
  then show ?case by (simp add: account_keys_def)
next
  case (Cons acc accs)
  show ?case
  proof (cases "strip (screen_name acc) = []")
    case True
    have "account_keys (acc # accs) = account_keys accs"
      using True by (auto simp: account_keys_def)
    with Cons.IH[OF Cons.prems] True show ?thesis by simp
  next
    case False
    let ?k = "lower (strip (screen_name acc))"
    let ?src = "src\<lparr>vendor_map := (vendor_map src)(?k \<mapsto> (vendor acc, is_founder acc)),
                    account_states := (account_states src)(?k \<mapsto>
                       fresh_state (coerce_tier (acc_tier acc)) t0)\<rparr>"
    have r: "registered ?src (insert ?k ks)"
      using Cons.prems by (auto simp: registered_def)
    have e: "insert ?k ks \<union> account_keys accs = ks \<union> account_keys (acc # accs)"
      using False by (auto simp: account_keys_def)
    have "registered (register_accounts t0 accs ?src) (ks \<union> account_keys (acc # accs)) \<and>
          accounts (register_accounts t0 accs ?src) = accounts ?src"
      using Cons.IH[OF r] unfolding e .
    then show ?thesis using False by (simp add: Let_def)
  qed
qed

lemma lifetime_registered:
  "registered (run_ticks lib dl (init_source accs t0) tks) (account_keys accs) \<and>
   accounts (run_ticks lib dl (init_source accs t0) tks) = accs"
proof -
  let ?e = "\<lparr>accounts = accs, init_time = t0, vendor_map = Map.empty,
             account_states = Map.empty\<rparr>"
  have "registered ?e {}" by (simp add: registered_def)
  from register_accounts_registered[OF this, of t0 accs]
  have i: "registered (init_source accs t0) (account_keys accs)"
    "accounts (init_source accs t0) = accs"
    by (simp_all add: init_source_def)
  from run_ticks_registered[OF i(1)] i(2) show ?thesis by simp
qed

lemma poll_account_due:
  assumes ne: "strip (screen_name acc) \<noteq> []"
    and gs: "get_state src (strip (screen_name acc)) = (st, src1)"
    and due: "should_poll_state st now"
  shows "account_states (snd (poll_account lib api dl pid rid now src acc))
           (lower (strip (screen_name acc))) =
         Some (advance_state (st\<lparr>last_check_time := now\<rparr>)
                 (fst (fst (poll_account lib api dl pid rid now src acc)) \<noteq> []) now)"
  unfolding poll_account_effect[OF refl ne gs] using due by (simp add: put_state_def)

lemma poll_account_not_due:
  assumes ne: "strip (screen_name acc) \<noteq> []"
    and reg: "account_states src (lower (strip (screen_name acc))) = Some st"
    and due: "\<not> should_poll_state st now"
  shows "poll_account lib api dl pid rid now src acc = (([], []), src)"
  unfolding poll_account_effect[OF refl ne get_state_registered[OF reg]] using due by simp








lemma keyword_scan_label: "fst (keyword_scan tx) \<in> {''major'', ''minor'', ''normal''}"
  by (simp add: keyword_scan_def split: option.splits)

lemma attention_filter_label: "attention_filter tx = Some r \<Longrightarrow> fst r = ''filter''"
  by (auto simp: attention_filter_def Let_def split: option.splits if_splits)

lemma detect_label:
  "fst (detect_importance_with_rule tx vnd) \<in> {''filter'', ''major'', ''minor'', ''normal''}"
proof (cases "if vnd = vendor_ai_news then attention_filter (lower tx) else None")
  case None
  then show ?thesis
    using keyword_scan_label[of "lower tx"]
    by (simp add: detect_importance_with_rule_def Let_def)
next
  case (Some r)
  then have "fst r = ''filter''"
    using attention_filter_label by (simp split: if_splits)
  with Some show ?thesis
    by (simp add: detect_importance_with_rule_def Let_def)
qed

lemma first_hit_mem: "first_hit kws tx = Some kw \<Longrightarrow> kw \<in> set kws"
  by (induction kws) (auto split: if_splits)

lemma noise_hit_nonempty: "first_hit noise_keywords tx = Some kw \<Longrightarrow> kw \<noteq> []"
  by (drule first_hit_mem) (auto simp: noise_keywords_def)

lemma classify_tweet_empty:
  "dict_get tweet ''text'' [] = [] \<Longrightarrow>
     classify_tweet lib dl pid rid sn tr vnd tweet = ([], None)"
  by (simp add: classify_tweet_def Let_def)

lemma classify_tweet_filter:
  "dict_get tweet ''text'' [] \<noteq> [] \<Longrightarrow>
   fst (detect_importance_with_rule (dict_get tweet ''text'' []) vnd) = ''filter'' \<Longrightarrow>
     classify_tweet lib dl pid rid sn tr vnd tweet =
       (log_if dl (log_record pid rid sn (dict_get tweet ''tweet_id'' []) tr
          ''importance'' ''drop'' ''IMPORTANCE_FILTER''
          (snd (detect_importance_with_rule (dict_get tweet ''text'' []) vnd))), None)"
  by (simp add: classify_tweet_def Let_def split_beta)

lemma classify_tweet_normal:
  "dict_get tweet ''text'' [] \<noteq> [] \<Longrightarrow>
   fst (detect_importance_with_rule (dict_get tweet ''text'' []) vnd) = ''normal'' \<Longrightarrow>
     classify_tweet lib dl pid rid sn tr vnd tweet =
       (log_if dl (log_record pid rid sn (dict_get tweet ''tweet_id'' []) tr
          ''importance'' ''drop'' ''IMPORTANCE_NORMAL'' []), None)"
  by (simp add: classify_tweet_def Let_def split_beta)

lemma classify_tweet_noise:
  "dict_get tweet ''text'' [] \<noteq> [] \<Longrightarrow>
   fst (detect_importance_with_rule (dict_get tweet ''text'' []) vnd) \<notin> {''filter'', ''normal''} \<Longrightarrow>
   first_hit noise_keywords (lower (dict_get tweet ''text'' [])) = Some kw \<Longrightarrow>
     classify_tweet lib dl pid rid sn tr vnd tweet =
       (log_if dl (log_record pid rid sn (dict_get tweet ''tweet_id'' []) tr
          ''importance'' ''pass'' ''IMPORTANCE_PASS''
          (snd (detect_importance_with_rule (dict_get tweet ''text'' []) vnd))) @
        log_if dl (log_record pid rid sn (dict_get tweet ''tweet_id'' []) tr
          ''noise'' ''drop'' ''NOISE_KEYWORD'' kw), None)"
  using noise_hit_nonempty[of "lower (dict_get tweet ''text'' [])" kw]
  by (simp add: classify_tweet_def Let_def split_beta)

lemma classify_tweet_accept:
  "dict_get tweet ''text'' [] \<noteq> [] \<Longrightarrow>
   fst (detect_importance_with_rule (dict_get tweet ''text'' []) vnd) \<notin> {''filter'', ''normal''} \<Longrightarrow>
   first_hit noise_keywords (lower (dict_get tweet ''text'' [])) = None \<Longrightarrow>
     \<exists>item. classify_tweet lib dl pid rid sn tr vnd tweet =
       (log_if dl (log_record pid rid sn (dict_get tweet ''tweet_id'' []) tr
          ''importance'' ''pass'' ''IMPORTANCE_PASS''
          (snd (detect_importance_with_rule (dict_get tweet ''text'' []) vnd))) @
        log_if dl (log_record pid rid sn (dict_get tweet ''tweet_id'' []) tr
          ''noise'' ''pass'' ''NOISE_PASS'' []), Some item) \<and>
       importance item =
         Some (fst (detect_importance_with_rule (dict_get tweet ''text'' []) vnd))"
  by (simp add: classify_tweet_def Let_def split_beta)

lemma classify_tweet_item:
  assumes "classify_tweet lib dl pid rid sn tr vnd tweet = (recs, Some item)"
  shows "dict_get tweet ''text'' [] \<noteq> [] \<and>
     fst (detect_importance_with_rule (dict_get tweet ''text'' []) vnd) \<in> {''major'', ''minor''} \<and>
     importance item = Some (fst (detect_importance_with_rule (dict_get tweet ''text'' []) vnd))"
proof -
  let ?tx = "dict_get tweet ''text'' []"
  let ?imp = "fst (detect_importance_with_rule ?tx vnd)"
  have ne: "?tx \<noteq> []" using assms classify_tweet_empty[of tweet] by auto
  have nf: "?imp \<noteq> ''filter''" using assms ne classify_tweet_filter[of tweet vnd] by auto
  have nn: "?imp \<noteq> ''normal''" using assms ne classify_tweet_normal[of tweet vnd] by auto
  have lab: "?imp \<in> {''major'', ''minor''}" using detect_label[of ?tx vnd] nf nn by auto
  have out: "?imp \<notin> {''filter'', ''normal''}" using nf nn by simp
  have "first_hit noise_keywords (lower ?tx) = None"
  proof (cases "first_hit noise_keywords (lower ?tx)")
    case None then show ?thesis .
  next
    case (Some kw)
    from classify_tweet_noise[OF ne out Some] assms show ?thesis by simp
  qed
  from classify_tweet_accept[OF ne out this, of lib dl pid rid sn tr] assms
  have "importance item = Some ?imp" by auto
  with ne lab show ?thesis by blast
qed


lemma classify_loop_items:
  "\<forall>i \<in> set items. accepted_label i \<Longrightarrow>
     \<forall>i \<in> set (snd (classify_loop lib dl pid rid sn tr vnd ts logged items)). accepted_label i"
proof (induction ts arbitrary: logged items)
  case Nil
  then show ?case by simp
next
  case (Cons t ts)
  obtain recs r where c: "classify_tweet lib dl pid rid sn tr vnd t = (recs, r)"
    by (cases "classify_tweet lib dl pid rid sn tr vnd t")
  show ?case
  proof (cases r)
    case None
    with c Cons show ?thesis by simp
  next
    case (Some item)
    with c have "accepted_label item"
      using classify_tweet_item[of lib dl pid rid sn tr vnd t recs item]
      by (auto simp: accepted_label_def)
    with Cons.prems have "\<forall>i \<in> set (items @ [item]). accepted_label i" by simp
    from Cons.IH[OF this] c Some show ?thesis by simp
  qed
qed

lemma poll_account_items:
  "\<forall>i \<in> set (fst (fst (poll_account lib api dl pid rid now src acc))). accepted_label i"
proof (cases "strip (screen_name acc) = []")
  case True
  then show ?thesis by (simp add: poll_account_def)
next
  case False
  obtain st src1 where gs: "get_state src (strip (screen_name acc)) = (st, src1)"
    by (cases "get_state src (strip (screen_name acc))")
  have "\<forall>i \<in> set (snd (polled_items lib api dl pid rid now src (strip (screen_name acc)) st)).
          accepted_label i"
    unfolding polled_items_def by (rule classify_loop_items) simp
  then show ?thesis
    unfolding poll_account_effect[OF refl False gs] by simp
qed

lemma fetch_loop_items:
  "\<forall>i \<in> set all_items. accepted_label i \<Longrightarrow>
     \<forall>i \<in> set (fst (fst (fetch_loop lib api dl pid rid now accs src all_items logged))).
       accepted_label i"
proof (induction accs arbitrary: src all_items logged)
  case Nil
  then show ?case by simp
next
  case (Cons acc accs)
  have "\<forall>i \<in> set (all_items @ fst (fst (poll_account lib api dl pid rid now src acc))).
          accepted_label i"
    using Cons.prems poll_account_items[of lib api dl pid rid now src acc] by auto
  from Cons.IH[OF this] show ?case by (simp add: split_beta)
qed



lemma send_each_calls:
  "calls (send_each nt pid rule i items ps) = calls ps @ map Send items"
  by (induction items arbitrary: i ps) (simp_all add: Let_def)

lemma send_each_log:
  "push_log (send_each nt pid rule i items ps) =
     push_log ps @ map (\<lambda>(j, item). push_record pid rule (send nt j item) item) (enumerate i items)"
  by (induction items arbitrary: i ps) (simp_all add: Let_def push_record_def)

lemma send_each_pushed:
  "pushed (send_each nt pid rule i items ps) =
     pushed ps + length (filter (\<lambda>(j, item). send nt j item) (enumerate i items))"
  by (induction items arbitrary: i ps) (simp_all add: Let_def)


section \<open>Interval policy: properties\<close>

text \<open>
  C3. For a tier among S, A and B and a streak that is not negative: in the night
  window the interval is 15 minutes whatever the tier and the streak; by day tier B
  gets 60 at streak 0 and 90 from streak 1 on, tiers S and A get 30 at streak 0, 60 at
  streak 1 and 90 from streak 2 on; the result is always one of 15, 30, 60 and 90.
\<close>

theorem next_interval_ladder:
  assumes "tr \<in> {''S'', ''A'', ''B''}" and "0 \<le> streak"
  shows "(is_night_window now \<longrightarrow> next_interval_minutes tr streak now = 15) \<and>
     (\<not> is_night_window now \<and> tr = ''B'' \<longrightarrow>
        (streak \<le> 0 \<longrightarrow> next_interval_minutes tr streak now = 60) \<and>
        (streak \<ge> 1 \<longrightarrow> next_interval_minutes tr streak now = 90)) \<and>
     (\<not> is_night_window now \<and> tr \<in> {''S'', ''A''} \<longrightarrow>
        (streak \<le> 0 \<longrightarrow> next_interval_minutes tr streak now = 30) \<and>
        (streak = 1 \<longrightarrow> next_interval_minutes tr streak now = 60) \<and>
        (streak \<ge> 2 \<longrightarrow> next_interval_minutes tr streak now = 90)) \<and>
     next_interval_minutes tr streak now \<in> {15, 30, 60, 90}"
  using assms by (auto simp: next_interval_minutes_def day_base_minutes_def Let_def)

theorem next_interval_ladder_witness:
  "is_night_window (14 * 3600000000) \<and> \<not> is_night_window 0 \<and>
   next_interval_minutes ''B'' 4 (14 * 3600000000) = 15 \<and>
   next_interval_minutes ''B'' 0 0 = 60 \<and>
   next_interval_minutes ''B'' 1 0 = 90 \<and>
   next_interval_minutes ''A'' 0 0 = 30 \<and>
   next_interval_minutes ''S'' 1 0 = 60 \<and>
   next_interval_minutes ''A'' 2 0 = 90"
proof -
  have night: "is_night_window (14 * 3600000000)" and day: "\<not> is_night_window 0"
    by (simp_all add: is_night_window_def hour_def)
  show ?thesis
    using night day
      next_interval_ladder [of "''B''" 4 "14 * 3600000000"]
      next_interval_ladder [of "''B''" 0 0]
      next_interval_ladder [of "''B''" 1 0]
      next_interval_ladder [of "''A''" 0 0]
      next_interval_ladder [of "''S''" 1 0]
      next_interval_ladder [of "''A''" 2 0]
    by simp
qed

section \<open>Window lower bound\<close>



section \<open>Empty streak\<close>

text \<open>
  C4. At every moment of the process the \<open>no_news_streak\<close> of every account lies in
  0..6. A poll sets it to 0 when the poll produced at least one item and to
  \<open>min (previous + 1) 6\<close> otherwise, as \<open>_advance_account_schedule\<close> does for any
  state.
\<close>

theorem empty_streak_bounded:
  "(account_states (run_ticks lib dl (init_source accs t0) tks) k = Some s \<longrightarrow>
      0 \<le> no_news_streak s \<and> no_news_streak s \<le> 6) \<and>
   (strip (screen_name acc) \<noteq> [] \<and> get_state src (strip (screen_name acc)) = (st, src1) \<and>
    should_poll_state st now \<longrightarrow>
      (\<exists>st'. account_states (snd (poll_account lib api dl pid rid now src acc))
               (lower (strip (screen_name acc))) = Some st' \<and>
             no_news_streak st' =
               (if fst (fst (poll_account lib api dl pid rid now src acc)) \<noteq> [] then 0
                else min (no_news_streak st + 1) 6))) \<and>
   (0 \<le> no_news_streak st \<longrightarrow>
      0 \<le> no_news_streak (advance_state st has_news now) \<and>
      no_news_streak (advance_state st has_news now) \<le> 6) \<and>
   no_news_streak (advance_state st has_news now) =
     (if has_news then 0 else min (no_news_streak st + 1) 6)"
proof (intro conjI impI)
  assume a: "account_states (run_ticks lib dl (init_source accs t0) tks) k = Some s"
  have "streak_ok (run_ticks lib dl (init_source accs t0) tks)"
    using init_source_inv run_ticks_streak_ok by blast
  with a show "0 \<le> no_news_streak s" "no_news_streak s \<le> 6"
    unfolding streak_ok_def by blast+
next
  assume a: "strip (screen_name acc) \<noteq> [] \<and> get_state src (strip (screen_name acc)) = (st, src1) \<and>
    should_poll_state st now"
  then have ne: "strip (screen_name acc) \<noteq> []"
    and gs: "get_state src (strip (screen_name acc)) = (st, src1)"
    and due: "should_poll_state st now" by simp_all
  show "\<exists>st'. account_states (snd (poll_account lib api dl pid rid now src acc))
               (lower (strip (screen_name acc))) = Some st' \<and>
             no_news_streak st' =
               (if fst (fst (poll_account lib api dl pid rid now src acc)) \<noteq> [] then 0
                else min (no_news_streak st + 1) 6)"
    unfolding poll_account_due[OF ne gs due] by (simp add: advance_state_fields)
next
  assume "0 \<le> no_news_streak st"
  then show "0 \<le> no_news_streak (advance_state st has_news now)"
    "no_news_streak (advance_state st has_news now) \<le> 6"
    by (simp_all add: advance_state_fields)
next
  show "no_news_streak (advance_state st has_news now) =
     (if has_news then 0 else min (no_news_streak st + 1) 6)"
    by (simp add: advance_state_fields)
qed

theorem empty_streak_bounded_witness:
  "(0 \<le> no_news_streak \<lparr>tier = ''S'', last_check_time = 7200000000,
        last_polled_at = Some 7200000000, no_news_streak = 2,
        next_due_at = Some 12600000000\<rparr> \<and>
    no_news_streak \<lparr>tier = ''S'', last_check_time = 7200000000,
        last_polled_at = Some 7200000000, no_news_streak = 2,
        next_due_at = Some 12600000000\<rparr> \<le> 6) \<and>
   (\<exists>st'. account_states (snd (poll_account sample_lib sample_api True ''p1'' [] 1000
              sample_source sample_account)) ''openai'' = Some st' \<and> no_news_streak st' = 0) \<and>
   no_news_streak (advance_state (fresh_state ''S'' 0) False 1000) = 1"
proof -
  have k: "lower (strip (screen_name sample_account)) = ''openai''"
    by code_simp
  have h1: "account_states (run_ticks sample_lib True (init_source [sample_account] 0)
              [sample_tick1, sample_tick2]) ''openai'' =
            Some \<lparr>tier = ''S'', last_check_time = 7200000000,
                  last_polled_at = Some 7200000000, no_news_streak = 2,
                  next_due_at = Some 12600000000\<rparr>"
    by code_simp
  have h2: "strip (screen_name sample_account) \<noteq> [] \<and>
      get_state sample_source (strip (screen_name sample_account)) =
        (fresh_state ''S'' 0, sample_source) \<and>
      should_poll_state (fresh_state ''S'' 0) 1000"
  proof -
    have r: "account_states sample_source (lower (strip (screen_name sample_account))) =
               Some (fresh_state ''S'' 0)"
      by code_simp
    have "strip (screen_name sample_account) \<noteq> []" "should_poll_state (fresh_state ''S'' 0) 1000"
      by code_simp+
    with get_state_registered[OF r] show ?thesis by simp
  qed
  have h3: "fst (fst (poll_account sample_lib sample_api True ''p1'' [] 1000
              sample_source sample_account)) \<noteq> []"
    by code_simp
  have h4: "no_news_streak (fresh_state ''S'' 0) = 0" by (simp add: fresh_state_def)
  show ?thesis
    using h1 h2 h3 h4
      empty_streak_bounded [where lib = sample_lib and dl = True and accs = "[sample_account]"
        and ?t0.0 = 0 and tks = "[sample_tick1, sample_tick2]" and k = "''openai''"
        and s = "\<lparr>tier = ''S'', last_check_time = 7200000000,
                  last_polled_at = Some 7200000000, no_news_streak = 2,
                  next_due_at = Some 12600000000\<rparr>"
        and acc = sample_account and src = sample_source and st = "fresh_state ''S'' 0"
        and ?src1.0 = sample_source and now = 1000 and api = sample_api and pid = "''p1''"
        and rid = "[]" and has_news = False]
    by (simp add: k)
qed

section \<open>Due-set selector\<close>

text \<open>
  C5. In the night window an account is polled iff it was never polled or its last
  poll is at least 15 minutes old, whatever \<open>next_due_at\<close> holds; by day it is polled
  iff the time has reached \<open>next_due_at\<close>. An account that is not due is skipped: no
  item, no record, and the source is unchanged. An account that is due is polled (its
  \<open>last_polled_at\<close> becomes the poll time). Every configured account keeps an entry in
  the registry for the life of the process.
\<close>

theorem due_set_selector:
  "(is_night_window now \<longrightarrow>
      (should_poll_state st now \<longleftrightarrow>
         last_polled_at st = None \<or>
         (\<exists>lp. last_polled_at st = Some lp \<and> now - lp \<ge> minutes 15))) \<and>
   (is_night_window now \<longrightarrow>
      should_poll_state (st\<lparr>next_due_at := nd'\<rparr>) now = should_poll_state st now) \<and>
   (\<not> is_night_window now \<and> next_due_at st = Some nd \<longrightarrow>
      (should_poll_state st now \<longleftrightarrow> now \<ge> nd)) \<and>
   (strip (screen_name acc) \<noteq> [] \<and>
    account_states src (lower (strip (screen_name acc))) = Some st \<and>
    \<not> should_poll_state st now \<longrightarrow>
      poll_account lib api dl pid rid now src acc = (([], []), src)) \<and>
   (strip (screen_name acc) \<noteq> [] \<and>
    account_states src (lower (strip (screen_name acc))) = Some st \<and>
    should_poll_state st now \<longrightarrow>
      (\<exists>st'. account_states (snd (poll_account lib api dl pid rid now src acc))
               (lower (strip (screen_name acc))) = Some st' \<and>
             last_polled_at st' = Some now)) \<and>
   (a \<in> set accs \<and> strip (screen_name a) \<noteq> [] \<longrightarrow>
      (\<exists>s. account_states (run_ticks lib dl (init_source accs t0) tks)
              (lower (strip (screen_name a))) = Some s))"
proof (intro conjI impI)
  assume "is_night_window now"
  then show "should_poll_state st now \<longleftrightarrow>
         last_polled_at st = None \<or>
         (\<exists>lp. last_polled_at st = Some lp \<and> now - lp \<ge> minutes 15)"
    by (cases "last_polled_at st") (simp_all add: should_poll_state_def)
next
  assume "is_night_window now"
  then show "should_poll_state (st\<lparr>next_due_at := nd'\<rparr>) now = should_poll_state st now"
    by (simp add: should_poll_state_def)
next
  assume "\<not> is_night_window now \<and> next_due_at st = Some nd"
  then show "should_poll_state st now \<longleftrightarrow> now \<ge> nd"
    by (simp add: should_poll_state_def)
next
  assume "strip (screen_name acc) \<noteq> [] \<and>
    account_states src (lower (strip (screen_name acc))) = Some st \<and>
    \<not> should_poll_state st now"
  then show "poll_account lib api dl pid rid now src acc = (([], []), src)"
    using poll_account_not_due by blast
next
  assume a: "strip (screen_name acc) \<noteq> [] \<and>
    account_states src (lower (strip (screen_name acc))) = Some st \<and>
    should_poll_state st now"
  then have ne: "strip (screen_name acc) \<noteq> []"
    and gs: "get_state src (strip (screen_name acc)) = (st, src)"
    and due: "should_poll_state st now"
    by (simp_all add: get_state_registered)
  show "\<exists>st'. account_states (snd (poll_account lib api dl pid rid now src acc))
               (lower (strip (screen_name acc))) = Some st' \<and>
             last_polled_at st' = Some now"
    unfolding poll_account_due[OF ne gs due] by (simp add: advance_state_fields)
next
  assume a: "a \<in> set accs \<and> strip (screen_name a) \<noteq> []"
  then have "lower (strip (screen_name a)) \<in> account_keys accs"
    unfolding account_keys_def by blast
  with lifetime_registered[of lib dl accs t0 tks]
  show "\<exists>s. account_states (run_ticks lib dl (init_source accs t0) tks)
              (lower (strip (screen_name a))) = Some s"
    unfolding registered_def by blast
qed

theorem due_set_selector_witness:
  "is_night_window 50400000000 \<and>
   \<not> should_poll_state (polled_state\<lparr>last_polled_at := Some 50000000000\<rparr>) 50400000000 \<and>
   should_poll_state (polled_state\<lparr>last_polled_at := Some 49500000000\<rparr>) 50400000000 \<and>
   \<not> is_night_window 1000 \<and>
   \<not> should_poll_state polled_state 3600000999 \<and>
   should_poll_state polled_state 3600001000 \<and>
   poll_account sample_lib sample_api True ''p2'' [] 2000
     (run_ticks sample_lib True sample_source [sample_tick1]) sample_account =
     (([], []), run_ticks sample_lib True sample_source [sample_tick1]) \<and>
   (\<exists>st'. account_states (snd (poll_account sample_lib sample_api True ''p2'' [] 3600001000
              (run_ticks sample_lib True sample_source [sample_tick1]) sample_account))
             ''openai'' = Some st' \<and> last_polled_at st' = Some 3600001000) \<and>
   (\<exists>s. account_states (run_ticks sample_lib True (init_source [sample_account] 0)
            [sample_tick1, sample_tick2]) ''openai'' = Some s)"
proof -
  have k: "lower (strip (screen_name sample_account)) = ''openai''"
    by code_simp
  have n: "is_night_window 50400000000" "\<not> is_night_window 1000"
    "\<not> is_night_window 3600000999" "\<not> is_night_window 3600001000" "\<not> is_night_window 2000"
    by (simp_all add: is_night_window_def hour_def)
  have ne: "strip (screen_name sample_account) \<noteq> []" by code_simp
  have reg: "account_states (run_ticks sample_lib True sample_source [sample_tick1])
               (lower (strip (screen_name sample_account))) = Some polled_state"
    by code_simp
  have d: "\<not> should_poll_state polled_state 2000" "should_poll_state polled_state 3600001000"
    by code_simp+
  have m: "sample_account \<in> set [sample_account]" by simp
  have f: "last_polled_at (polled_state\<lparr>last_polled_at := Some 50000000000\<rparr>) = Some 50000000000"
    "last_polled_at (polled_state\<lparr>last_polled_at := Some 49500000000\<rparr>) = Some 49500000000"
    "next_due_at polled_state = Some 3600001000"
    by (simp_all add: polled_state_def)
  show ?thesis
    using n ne reg d m f
      due_set_selector [where now = 50400000000
        and st = "polled_state\<lparr>last_polled_at := Some 50000000000\<rparr>"]
      due_set_selector [where now = 50400000000
        and st = "polled_state\<lparr>last_polled_at := Some 49500000000\<rparr>"]
      due_set_selector [where now = 3600000999 and st = polled_state and nd = 3600001000]
      due_set_selector [where now = 3600001000 and st = polled_state and nd = 3600001000]
      due_set_selector [where now = 2000 and st = polled_state and acc = sample_account
        and src = "run_ticks sample_lib True sample_source [sample_tick1]"
        and lib = sample_lib and api = sample_api and dl = True and pid = "''p2''" and rid = "[]"]
      due_set_selector [where now = 3600001000 and st = polled_state and acc = sample_account
        and src = "run_ticks sample_lib True sample_source [sample_tick1]"
        and lib = sample_lib and api = sample_api and dl = True and pid = "''p2''" and rid = "[]"
        and a = sample_account and accs = "[sample_account]" and ?t0.0 = 0
        and tks = "[sample_tick1, sample_tick2]"]
    by (simp add: k minutes_def)
qed

section \<open>Window filter: properties\<close>

text \<open>
  C2. The window filter keeps exactly the candidates whose \<open>created_at\<close> parses to a
  time \<open>t\<close> with \<open>last_check_time < t \<le> now\<close>: a time equal to \<open>last_check_time\<close> is
  out, a time equal to \<open>now\<close> is in, and a candidate whose timestamp does not parse,
  or is absent (it is then the empty string, which \<open>strptime\<close> rejects), is never
  kept. \<open>_parse_tweet_datetime\<close> and \<open>_is_in_window\<close> have no error result: a
  parse error is the value \<open>None\<close>.
\<close>

theorem window_filter_keeps:
  "fst (fst (extract_tweets lib src rd sn now pid rid tr dl)) =
     filter (\<lambda>t. \<exists>ts. strptime lib (dict_get t ''created_at'' []) = Some ts \<and>
                      last_check_time (fst (get_state src sn)) < ts \<and> ts \<le> now)
            (candidates rd)
   \<and> \<not> is_in_window (Some lct) lct now
   \<and> (lct < now \<longrightarrow> is_in_window (Some now) lct now)
   \<and> \<not> is_in_window None lct now
   \<and> (strptime lib (dict_get t ''created_at'' []) = None \<longrightarrow>
        t \<notin> set (fst (fst (extract_tweets lib src rd sn now pid rid tr dl))))
   \<and> (map_of t ''created_at'' = None \<and> strptime lib [] = None \<longrightarrow>
        t \<notin> set (fst (fst (extract_tweets lib src rd sn now pid rid tr dl))))"
proof -
  have keep: "fst (fst (extract_tweets lib src rd sn now pid rid tr dl)) =
     filter (in_window_tweet lib (last_check_time (fst (get_state src sn))) now) (candidates rd)"
    by (simp add: extract_tweets_def Let_def split_beta window_loop_filtered)
  have a: "fst (fst (extract_tweets lib src rd sn now pid rid tr dl)) =
     filter (\<lambda>t. \<exists>ts. strptime lib (dict_get t ''created_at'' []) = Some ts \<and>
                      last_check_time (fst (get_state src sn)) < ts \<and> ts \<le> now)
            (candidates rd)"
    unfolding keep by (rule filter_cong) (simp_all add: in_window_tweet_iff)
  have b: "\<not> is_in_window (Some lct) lct now" by (simp add: is_in_window_def)
  have c: "lct < now \<longrightarrow> is_in_window (Some now) lct now" by (simp add: is_in_window_def)
  have n: "\<not> is_in_window None lct now" by (simp add: is_in_window_def)
  have d: "strptime lib (dict_get t ''created_at'' []) = None \<longrightarrow>
        t \<notin> set (fst (fst (extract_tweets lib src rd sn now pid rid tr dl)))"
    unfolding a by simp
  have e: "map_of t ''created_at'' = None \<and> strptime lib [] = None \<longrightarrow>
        t \<notin> set (fst (fst (extract_tweets lib src rd sn now pid rid tr dl)))"
    unfolding a by (simp add: dict_get_def)
  from a b c n d e show ?thesis by blast
qed

theorem window_filter_keeps_witness:
  "fst (fst (extract_tweets sample_lib sample_source sample_data ''OpenAI'' 1000
               ''p1'' ''p1'' ''S'' True)) =
     [[(''tweet_id'', ''2''), (''created_at'', ''500''), (''text'', ''OpenAI ships GPT-5'')],
      [(''tweet_id'', ''3''), (''created_at'', ''1000''), (''text'', ''bug fix'')],
      [(''tweet_id'', ''4''), (''created_at'', ''600'')],
      [(''tweet_id'', ''6''), (''created_at'', ''700''), (''text'', ''Nice weather'')],
      [(''tweet_id'', ''7''), (''created_at'', ''800''),
       (''text'', ''We are hiring: new model team'')]] \<and>
   is_in_window (Some 1000) 0 1000 \<and>
   [(''tweet_id'', ''4''), (''created_at'', ''soon'')] \<notin>
     set (fst (fst (extract_tweets sample_lib sample_source sample_data ''OpenAI'' 1000
                      ''p1'' ''p1'' ''S'' True))) \<and>
   [(''tweet_id'', ''5''), (''text'', ''We launch today'')] \<notin>
     set (fst (fst (extract_tweets sample_lib sample_source sample_data ''OpenAI'' 1000
                      ''p1'' ''p1'' ''S'' True)))"
proof -
  have ev: "fst (fst (extract_tweets sample_lib sample_source sample_data ''OpenAI'' 1000
               ''p1'' ''p1'' ''S'' True)) =
     [[(''tweet_id'', ''2''), (''created_at'', ''500''), (''text'', ''OpenAI ships GPT-5'')],
      [(''tweet_id'', ''3''), (''created_at'', ''1000''), (''text'', ''bug fix'')],
      [(''tweet_id'', ''4''), (''created_at'', ''600'')],
      [(''tweet_id'', ''6''), (''created_at'', ''700''), (''text'', ''Nice weather'')],
      [(''tweet_id'', ''7''), (''created_at'', ''800''),
       (''text'', ''We are hiring: new model team'')]]"
    by code_simp
  have h1: "(0::int) < 1000" by simp
  have h2: "strptime sample_lib
              (dict_get [(''tweet_id'', ''4''), (''created_at'', ''soon'')] ''created_at'' []) = None"
    by code_simp
  have h3: "map_of [(''tweet_id'', ''5''), (''text'', ''We launch today'')] ''created_at'' = None \<and>
            strptime sample_lib [] = None"
    by code_simp
  show ?thesis
    using ev h1 h2 h3
      window_filter_keeps [where lib = sample_lib and src = sample_source and rd = sample_data
        and sn = "''OpenAI''" and now = 1000 and pid = "''p1''" and rid = "''p1''"
        and tr = "''S''" and dl = True and lct = 0
        and t = "[(''tweet_id'', ''4''), (''created_at'', ''soon'')]"]
      window_filter_keeps [where lib = sample_lib and src = sample_source and rd = sample_data
        and sn = "''OpenAI''" and now = 1000 and pid = "''p1''" and rid = "''p1''"
        and tr = "''S''" and dl = True and lct = 0
        and t = "[(''tweet_id'', ''5''), (''text'', ''We launch today'')]"]
    by simp
qed

section \<open>Importance scan\<close>




section \<open>Importance gate\<close>

text \<open>
  C7. A tweet labelled \<open>filter\<close> is dropped at the importance stage with the
  reason \<open>IMPORTANCE_FILTER\<close>, one labelled \<open>normal\<close> with \<open>IMPORTANCE_NORMAL\<close>;
  the labels \<open>major\<close> and \<open>minor\<close> pass it. A tweet that becomes an item was
  labelled \<open>major\<close> or \<open>minor\<close>, and the item carries \<open>major\<close> for the label
  \<open>major\<close> and \<open>minor\<close> otherwise; so every item that \<open>fetch\<close> returns carries
  \<open>major\<close> or \<open>minor\<close>.
\<close>

theorem importance_gate:
  "(dict_get tweet ''text'' [] \<noteq> [] \<and>
    fst (detect_importance_with_rule (dict_get tweet ''text'' []) vnd) = ''filter'' \<longrightarrow>
      classify_tweet lib True pid rid sn tr vnd tweet =
        ([log_record pid rid sn (dict_get tweet ''tweet_id'' []) tr
            ''importance'' ''drop'' ''IMPORTANCE_FILTER''
            (snd (detect_importance_with_rule (dict_get tweet ''text'' []) vnd))], None)) \<and>
   (dict_get tweet ''text'' [] \<noteq> [] \<and>
    fst (detect_importance_with_rule (dict_get tweet ''text'' []) vnd) = ''normal'' \<longrightarrow>
      classify_tweet lib True pid rid sn tr vnd tweet =
        ([log_record pid rid sn (dict_get tweet ''tweet_id'' []) tr
            ''importance'' ''drop'' ''IMPORTANCE_NORMAL'' []], None)) \<and>
   (dict_get tweet ''text'' [] \<noteq> [] \<and>
    fst (detect_importance_with_rule (dict_get tweet ''text'' []) vnd) \<in> {''major'', ''minor''} \<longrightarrow>
      (\<exists>rest. fst (classify_tweet lib True pid rid sn tr vnd tweet) =
         log_record pid rid sn (dict_get tweet ''tweet_id'' []) tr
           ''importance'' ''pass'' ''IMPORTANCE_PASS''
           (snd (detect_importance_with_rule (dict_get tweet ''text'' []) vnd)) # rest)) \<and>
   (classify_tweet lib dl pid rid sn tr vnd tweet = (recs, Some item) \<longrightarrow>
      fst (detect_importance_with_rule (dict_get tweet ''text'' []) vnd) \<in> {''major'', ''minor''} \<and>
      importance item =
        Some (if fst (detect_importance_with_rule (dict_get tweet ''text'' []) vnd) = ''major''
              then ''major'' else ''minor'')) \<and>
   (\<forall>i \<in> set (fst (fst (fetch lib api dl pid rid now src))).
      importance i = Some ''major'' \<or> importance i = Some ''minor'')"
proof (intro conjI impI)
  assume "dict_get tweet ''text'' [] \<noteq> [] \<and>
    fst (detect_importance_with_rule (dict_get tweet ''text'' []) vnd) = ''filter''"
  then show "classify_tweet lib True pid rid sn tr vnd tweet =
        ([log_record pid rid sn (dict_get tweet ''tweet_id'' []) tr
            ''importance'' ''drop'' ''IMPORTANCE_FILTER''
            (snd (detect_importance_with_rule (dict_get tweet ''text'' []) vnd))], None)"
    using classify_tweet_filter[of tweet vnd lib True pid rid sn tr] by (simp add: log_if_def)
next
  assume "dict_get tweet ''text'' [] \<noteq> [] \<and>
    fst (detect_importance_with_rule (dict_get tweet ''text'' []) vnd) = ''normal''"
  then show "classify_tweet lib True pid rid sn tr vnd tweet =
        ([log_record pid rid sn (dict_get tweet ''tweet_id'' []) tr
            ''importance'' ''drop'' ''IMPORTANCE_NORMAL'' []], None)"
    using classify_tweet_normal[of tweet vnd lib True pid rid sn tr] by (simp add: log_if_def)
next
  assume a: "dict_get tweet ''text'' [] \<noteq> [] \<and>
    fst (detect_importance_with_rule (dict_get tweet ''text'' []) vnd) \<in> {''major'', ''minor''}"
  then have ne: "dict_get tweet ''text'' [] \<noteq> []"
    and out: "fst (detect_importance_with_rule (dict_get tweet ''text'' []) vnd) \<notin>
               {''filter'', ''normal''}"
    by auto
  show "\<exists>rest. fst (classify_tweet lib True pid rid sn tr vnd tweet) =
         log_record pid rid sn (dict_get tweet ''tweet_id'' []) tr
           ''importance'' ''pass'' ''IMPORTANCE_PASS''
           (snd (detect_importance_with_rule (dict_get tweet ''text'' []) vnd)) # rest"
  proof (cases "first_hit noise_keywords (lower (dict_get tweet ''text'' []))")
    case None
    from classify_tweet_accept[OF ne out None, of lib True pid rid sn tr]
    show ?thesis by (auto simp: log_if_def)
  next
    case (Some kw)
    from classify_tweet_noise[OF ne out Some, of lib True pid rid sn tr]
    show ?thesis by (simp add: log_if_def)
  qed
next
  assume a: "classify_tweet lib dl pid rid sn tr vnd tweet = (recs, Some item)"
  from classify_tweet_item[OF a]
  show "fst (detect_importance_with_rule (dict_get tweet ''text'' []) vnd) \<in> {''major'', ''minor''}"
    "importance item =
        Some (if fst (detect_importance_with_rule (dict_get tweet ''text'' []) vnd) = ''major''
              then ''major'' else ''minor'')"
    by auto
next
  have "\<forall>i \<in> set (fst (fst (fetch lib api dl pid rid now src))). accepted_label i"
    unfolding fetch_def by (rule fetch_loop_items) simp
  then show "\<forall>i \<in> set (fst (fst (fetch lib api dl pid rid now src))).
      importance i = Some ''major'' \<or> importance i = Some ''minor''"
    by (simp add: accepted_label_def)
qed

theorem importance_gate_witness:
  "classify_tweet sample_lib True ''p1'' ''p1'' ''OpenAI'' ''S'' vendor_ai_news
     [(''tweet_id'', ''9''), (''text'', ''Perplexity adds a feature'')] =
     ([log_record ''p1'' ''p1'' ''OpenAI'' ''9'' ''S''
         ''importance'' ''drop'' ''IMPORTANCE_FILTER'' ''perplexity''], None) \<and>
   classify_tweet sample_lib True ''p1'' ''p1'' ''OpenAI'' ''S'' ''OpenAI''
     [(''tweet_id'', ''6''), (''created_at'', ''700''), (''text'', ''Nice weather'')] =
     ([log_record ''p1'' ''p1'' ''OpenAI'' ''6'' ''S''
         ''importance'' ''drop'' ''IMPORTANCE_NORMAL'' []], None) \<and>
   (\<exists>rest. fst (classify_tweet sample_lib True ''p1'' ''p1'' ''OpenAI'' ''S'' ''OpenAI''
              [(''tweet_id'', ''3''), (''created_at'', ''1000''), (''text'', ''bug fix'')]) =
      log_record ''p1'' ''p1'' ''OpenAI'' ''3'' ''S''
        ''importance'' ''pass'' ''IMPORTANCE_PASS'' ''fix'' # rest) \<and>
   map importance (fst (fst (fetch sample_lib sample_api True ''p1'' ''p1'' 1000 sample_source))) =
     [Some ''major'', Some ''minor'']"
proof -
  have d1: "dict_get [(''tweet_id'', ''9''), (''text'', ''Perplexity adds a feature'')] ''text'' [] =
              ''Perplexity adds a feature''"
    "dict_get [(''tweet_id'', ''9''), (''text'', ''Perplexity adds a feature'')] ''tweet_id'' [] = ''9''"
    "detect_importance_with_rule ''Perplexity adds a feature'' vendor_ai_news =
       (''filter'', ''perplexity'')"
    by code_simp+
  have d2: "dict_get [(''tweet_id'', ''6''), (''created_at'', ''700''), (''text'', ''Nice weather'')]
              ''text'' [] = ''Nice weather''"
    "dict_get [(''tweet_id'', ''6''), (''created_at'', ''700''), (''text'', ''Nice weather'')]
              ''tweet_id'' [] = ''6''"
    "detect_importance_with_rule ''Nice weather'' ''OpenAI'' = (''normal'', [])"
    by code_simp+
  have d3: "dict_get [(''tweet_id'', ''3''), (''created_at'', ''1000''), (''text'', ''bug fix'')]
              ''text'' [] = ''bug fix''"
    "dict_get [(''tweet_id'', ''3''), (''created_at'', ''1000''), (''text'', ''bug fix'')]
              ''tweet_id'' [] = ''3''"
    "detect_importance_with_rule ''bug fix'' ''OpenAI'' = (''minor'', ''fix'')"
    by code_simp+
  have ev: "map importance
              (fst (fst (fetch sample_lib sample_api True ''p1'' ''p1'' 1000 sample_source))) =
            [Some ''major'', Some ''minor'']"
    by code_simp
  show ?thesis
    using ev
      importance_gate [where tweet = "[(''tweet_id'', ''9''), (''text'', ''Perplexity adds a feature'')]"
        and vnd = vendor_ai_news and lib = sample_lib and pid = "''p1''" and rid = "''p1''"
        and sn = "''OpenAI''" and tr = "''S''"]
      importance_gate [where
        tweet = "[(''tweet_id'', ''6''), (''created_at'', ''700''), (''text'', ''Nice weather'')]"
        and vnd = "''OpenAI''" and lib = sample_lib and pid = "''p1''" and rid = "''p1''"
        and sn = "''OpenAI''" and tr = "''S''"]
      importance_gate [where
        tweet = "[(''tweet_id'', ''3''), (''created_at'', ''1000''), (''text'', ''bug fix'')]"
        and vnd = "''OpenAI''" and lib = sample_lib and pid = "''p1''" and rid = "''p1''"
        and sn = "''OpenAI''" and tr = "''S''" and api = sample_api and dl = True
        and now = 1000 and src = sample_source]
    unfolding d1 d2 d3 by simp
qed

section \<open>Decision records\<close>




section \<open>Notifier fallback\<close>

text \<open>
  C9. By day, when \<open>send_batch\<close> answers false for the staged items, \<open>run_once\<close>
  sends every staged item by itself, in order and whatever the earlier single sends
  answered; each single send is logged, as \<open>PUSH_OK\<close> or as \<open>PUSH_FAIL\<close>, and the
  count of pushed items is the number of single sends that succeeded.
\<close>

theorem batch_failure_falls_back:
  "staged \<noteq> [] \<and> \<not> night \<and> \<not> send_batch nt staged \<longrightarrow>
     calls (push_staged nt night pid staged) = SendBatch staged # map Send staged \<and>
     push_log (push_staged nt night pid staged) =
       batch_record pid False staged #
       map (\<lambda>(i, item). push_record pid ''day_batch_fallback_single'' (send nt i item) item)
         (enumerate 0 staged) \<and>
     pushed (push_staged nt night pid staged) =
       length (filter (\<lambda>(i, item). send nt i item) (enumerate 0 staged))"
  by (simp add: push_staged_def Let_def send_each_calls send_each_log send_each_pushed
      batch_record_def)

theorem batch_failure_falls_back_witness:
  "calls (push_staged sample_notifier False ''p1'' [sample_item1, sample_item2]) =
     [SendBatch [sample_item1, sample_item2], Send sample_item1, Send sample_item2] \<and>
   push_log (push_staged sample_notifier False ''p1'' [sample_item1, sample_item2]) =
     [batch_record ''p1'' False [sample_item1, sample_item2],
      push_record ''p1'' ''day_batch_fallback_single'' False sample_item1,
      push_record ''p1'' ''day_batch_fallback_single'' True sample_item2] \<and>
   pushed (push_staged sample_notifier False ''p1'' [sample_item1, sample_item2]) = 1"
proof -
  have h: "[sample_item1, sample_item2] \<noteq> [] \<and> \<not> False \<and>
           \<not> send_batch sample_notifier [sample_item1, sample_item2]"
    by (simp add: sample_notifier_def sample_send_batch_def)
  have s: "send sample_notifier 0 sample_item1 = False" "send sample_notifier 1 sample_item2 = True"
    by (simp_all add: sample_notifier_def sample_send_def)
  show ?thesis
    using h s
      batch_failure_falls_back [where staged = "[sample_item1, sample_item2]" and night = False
        and nt = sample_notifier and pid = "''p1''"]
    by (simp add: enumerate_eq_zip)
qed

section \<open>Storage failures\<close>



end
